theory Spec2Isabelle
  imports Main "HOL-Library.Sublist"
begin

section \<open>Python values and exceptions\<close>

text \<open>
  The uploader (\<^verbatim>\<open>uploader.py\<close>) keeps its configuration as the value
  \<^verbatim>\<open>json.load\<close> returns: any JSON document, not a record with fixed fields.
  A dictionary is an association list (insertion order, as in Python); a number with a
  fraction or an exponent keeps the text of its literal.
\<close>

datatype json =
    JNull
  | JBool bool
  | JInt int
  | JFloat string
  | JStr string
  | JArr "json list"
  | JObj "(string \<times> json) list"

text \<open>
  The exceptions the program can meet. All but \<open>KeyboardInterrupt\<close> are subclasses of
  Python's \<^verbatim>\<open>Exception\<close>, which is what \<^verbatim>\<open>except Exception\<close> catches.
  \<open>LibError\<close> stands for the errors of ftplib, paramiko and the socket layer.
\<close>

datatype exn =
    KeyError string
  | TypeError
  | AttributeError
  | ValueError
  | IndexError
  | OSError
  | EOFError
  | JSONDecodeError
  | LibError string
  | KeyboardInterrupt

fun is_Exception :: "exn \<Rightarrow> bool" where
  "is_Exception KeyboardInterrupt = False"
| "is_Exception _ = True"

text \<open>\<^verbatim>\<open>v[k]\<close> with a string key: only a dictionary can be subscripted that way.\<close>

fun py_getitem :: "json \<Rightarrow> string \<Rightarrow> exn + json" where
  "py_getitem (JObj kvs) k = (case map_of kvs k of None \<Rightarrow> Inl (KeyError k) | Some v \<Rightarrow> Inr v)"
| "py_getitem _ k = Inl TypeError"

text \<open>\<^verbatim>\<open>v.get(k)\<close>: \<open>None\<close> for a missing key; only dictionaries have the method.\<close>

fun py_get :: "json \<Rightarrow> string \<Rightarrow> exn + json" where
  "py_get (JObj kvs) k = (case map_of kvs k of None \<Rightarrow> Inr JNull | Some v \<Rightarrow> Inr v)"
| "py_get _ k = Inl AttributeError"

text \<open>
  Truth value of a value in \<^verbatim>\<open>if v:\<close>. A float literal is false when its mantissa
  (the text before an exponent) has no digit other than zero.
\<close>

definition float_nonzero :: "string \<Rightarrow> bool" where
  "float_nonzero s =
     list_ex (\<lambda>c. c \<in> set ''123456789NI'')
       (takeWhile (\<lambda>c. c \<noteq> CHR ''e'' \<and> c \<noteq> CHR ''E'') s)"

fun truthy :: "json \<Rightarrow> bool" where
  "truthy JNull = False"
| "truthy (JBool b) = b"
| "truthy (JInt i) = (i \<noteq> 0)"
| "truthy (JFloat s) = float_nonzero s"
| "truthy (JStr s) = (s \<noteq> [])"
| "truthy (JArr xs) = (xs \<noteq> [])"
| "truthy (JObj kvs) = (kvs \<noteq> [])"

section \<open>Strings and paths\<close>

definition endswith :: "string \<Rightarrow> string \<Rightarrow> bool" where
  "endswith s suf = (length suf \<le> length s \<and> drop (length s - length suf) s = suf)"

definition startswith :: "string \<Rightarrow> string \<Rightarrow> bool" where
  "startswith s pre = (take (length pre) s = pre)"

definition lower_char :: "char \<Rightarrow> char" where
  "lower_char c =
     (let n = (of_char c :: nat) in if 65 \<le> n \<and> n \<le> 90 then char_of (n + 32) else c)"

definition lower :: "string \<Rightarrow> string" where
  "lower s = map lower_char s"

text \<open>\<^verbatim>\<open>s.split('/')\<close>: the pieces between separators, empty ones included.\<close>

fun split_sep :: "string \<Rightarrow> string list" where
  "split_sep [] = [[]]"
| "split_sep (c # cs) =
     (if c = CHR ''/'' then [] # split_sep cs
      else (c # hd (split_sep cs)) # tl (split_sep cs))"

text \<open>\<^verbatim>\<open>'/'.join(comps)\<close>.\<close>

fun sep_join :: "string list \<Rightarrow> string" where
  "sep_join [] = []"
| "sep_join [x] = x"
| "sep_join (x # y # ys) = x @ CHR ''/'' # sep_join (y # ys)"

text \<open>\<^verbatim>\<open>posixpath.join(a, b)\<close>.\<close>

definition os_path_join :: "string \<Rightarrow> string \<Rightarrow> string" where
  "os_path_join a b =
     (if startswith b ''/'' then b
      else if a = [] \<or> endswith a ''/'' then a @ b
      else a @ ''/'' @ b)"

text \<open>
  \<^verbatim>\<open>posixpath.normpath\<close>: the loop over the components, then the leading slashes
  (one, or two when the path starts with exactly two).
\<close>

definition norm_step :: "bool \<Rightarrow> string list \<Rightarrow> string \<Rightarrow> string list" where
  "norm_step initial new_comps part =
     (if part = [] \<or> part = ''.'' then new_comps
      else if part \<noteq> ''..'' \<or> (\<not> initial \<and> new_comps = [])
              \<or> (new_comps \<noteq> [] \<and> last new_comps = ''..'')
        then new_comps @ [part]
      else if new_comps \<noteq> [] then butlast new_comps
      else new_comps)"

definition initial_slashes :: "string \<Rightarrow> nat" where
  "initial_slashes path =
     (if startswith path ''/'' then
        (if startswith path ''//'' \<and> \<not> startswith path ''///'' then 2 else 1)
      else 0)"

definition normpath :: "string \<Rightarrow> string" where
  "normpath path =
     (if path = [] then ''.''
      else
        let n = initial_slashes path;
            comps = foldl (norm_step (n \<noteq> 0)) [] (split_sep path);
            p = replicate n (CHR ''/'') @ sep_join comps
        in if p = [] then ''.'' else p)"

definition abspath :: "string \<Rightarrow> string \<Rightarrow> string" where
  "abspath cwd path =
     normpath (if startswith path ''/'' then path else os_path_join cwd path)"

text \<open>The components of an absolute path: \<^verbatim>\<open>[x for x in abspath(p).split(sep) if x]\<close>.\<close>

definition path_list :: "string \<Rightarrow> string \<Rightarrow> string list" where
  "path_list cwd path = filter (\<lambda>x. x \<noteq> []) (split_sep (abspath cwd path))"

fun commonprefix :: "string list \<Rightarrow> string list \<Rightarrow> string list" where
  "commonprefix (x # xs) (y # ys) = (if x = y then x # commonprefix xs ys else [])"
| "commonprefix _ _ = []"

text \<open>\<^verbatim>\<open>posixpath.relpath(path, start)\<close>.\<close>

definition relpath :: "string \<Rightarrow> string \<Rightarrow> string \<Rightarrow> exn + string" where
  "relpath cwd path start =
     (if path = [] then Inl ValueError
      else
        let start_list = path_list cwd start;
            p_list = path_list cwd path;
            i = length (commonprefix start_list p_list);
            rel_list = replicate (length start_list - i) ''..'' @ drop i p_list
        in case rel_list of
             [] \<Rightarrow> Inr ''.''
           | r # rs \<Rightarrow> Inr (foldl os_path_join r rs))"




section \<open>The file system\<close>

text \<open>
  A file holds bytes or a ZIP archive (its entries: name and content). The file system
  is a tree; a directory lists its entries in the order the system enumerates them.
  Paths are resolved by their normalised components from the root; symbolic links and
  permissions are not modelled.
\<close>

datatype content = Bytes string | Zip "(string \<times> content) list"

datatype node = File content | Dir "(string \<times> node) list"

fun lookup :: "node \<Rightarrow> string list \<Rightarrow> node option" where
  "lookup n [] = Some n"
| "lookup (File c) (x # xs) = None"
| "lookup (Dir es) (x # xs) =
     (case map_of es x of None \<Rightarrow> None | Some n \<Rightarrow> lookup n xs)"

fun upd :: "(string \<times> node) list \<Rightarrow> string \<Rightarrow> node \<Rightarrow> (string \<times> node) list" where
  "upd [] k v = [(k, v)]"
| "upd ((k', v') # es) k v = (if k' = k then (k, v) # es else (k', v') # upd es k v)"

text \<open>
  Opening a file for writing creates or truncates it; it fails when the parent is not
  a directory or the path names a directory.
\<close>

fun put :: "node \<Rightarrow> string list \<Rightarrow> content \<Rightarrow> node option" where
  "put n [] c = None"
| "put (File c') (x # xs) c = None"
| "put (Dir es) [x] c =
     (case map_of es x of
        Some (Dir ds) \<Rightarrow> None
      | _ \<Rightarrow> Some (Dir (upd es x (File c))))"
| "put (Dir es) (x # y # ys) c =
     (case map_of es x of
        None \<Rightarrow> None
      | Some n \<Rightarrow>
          (case put n (y # ys) c of
             None \<Rightarrow> None
           | Some n' \<Rightarrow> Some (Dir (upd es x n'))))"

text \<open>\<^verbatim>\<open>os.remove\<close>: deletes a file; fails on a missing path or a directory.\<close>

fun del :: "node \<Rightarrow> string list \<Rightarrow> node option" where
  "del n [] = None"
| "del (File c') (x # xs) = None"
| "del (Dir es) [x] =
     (case map_of es x of
        Some (File c) \<Rightarrow> Some (Dir (filter (\<lambda>e. fst e \<noteq> x) es))
      | _ \<Rightarrow> None)"
| "del (Dir es) (x # y # ys) =
     (case map_of es x of
        None \<Rightarrow> None
      | Some n \<Rightarrow>
          (case del n (y # ys) of
             None \<Rightarrow> None
           | Some n' \<Rightarrow> Some (Dir (upd es x n'))))"

section \<open>The world: state, environment and the trace of effects\<close>

datatype level = INFO | WARNING | ERROR

text \<open>
  The log messages of the source, in the order they appear there; the source's texts are
  Chinese, an argument is what the f-string interpolates.
\<close>

datatype msg =
    ConfigMissing
  | ConfigCreated
  | FtpUploaded string
  | FtpFailed exn
  | SftpUploaded json json
  | SftpFailed exn
  | InvalidMethod
  | RemoveFailed exn
  | Reloaded
  | FileChanged string
  | Started
  | AutoMode
  | Exited
  | ManualMode

text \<open>The calls into ftplib and paramiko whose outcome the network decides.\<close>

datatype netop =
    FtpConnect
  | FtpLogin
  | FtpCwd
  | FtpStor
  | FtpQuit
  | FtpClose
  | TransportNew
  | KeyLoad
  | TransportAuth
  | SftpOpen
  | SftpPut
  | SftpClose
  | TransportClose

datatype obsop = ObserverNew | ObserverSchedule | ObserverStart | ObserverStop | ObserverJoin

text \<open>
  The observer of the watchdog library: none yet, created, running (its thread started),
  or asked to stop.
\<close>

datatype obs_state = NoObserver | Created | Running | Stopping

datatype call =
    Log level msg
  | PrintInvalid
  | Gettempdir
  | WriteFile string
  | ZipOpen string
  | ZipClose string
  | Remove string
  | Net netop "json list"
  | Obs obsop

record world =
  fs :: node
  cwd :: string
  tempdir :: string
  outcome :: "netop \<Rightarrow> exn option"
  ftp_sock :: bool
  transports :: nat
  observer :: obs_state
  trace :: "call list"

type_synonym 'a prog = "world \<Rightarrow> (exn + 'a) \<times> world"

definition ret :: "'a \<Rightarrow> 'a prog" where
  "ret x = (\<lambda>w. (Inr x, w))"

definition raise :: "exn \<Rightarrow> 'a prog" where
  "raise e = (\<lambda>w. (Inl e, w))"

definition lift :: "exn + 'a \<Rightarrow> 'a prog" where
  "lift r = (\<lambda>w. (r, w))"

definition bind :: "'a prog \<Rightarrow> ('a \<Rightarrow> 'b prog) \<Rightarrow> 'b prog" where
  "bind m f = (\<lambda>w. case m w of (Inl e, w') \<Rightarrow> (Inl e, w') | (Inr x, w') \<Rightarrow> f x w')"

text \<open>\<^verbatim>\<open>try: m  except Exception as e: h(e)\<close>\<close>

definition try_except :: "'a prog \<Rightarrow> (exn \<Rightarrow> 'a prog) \<Rightarrow> 'a prog" where
  "try_except m h =
     (\<lambda>w. case m w of
        (Inl e, w') \<Rightarrow> if is_Exception e then h e w' else (Inl e, w')
      | (Inr x, w') \<Rightarrow> (Inr x, w'))"

text \<open>A block that runs \<open>fin\<close> on the way out, as a \<^verbatim>\<open>with\<close> statement's exit does:
  an exception of \<open>fin\<close> replaces the one in flight.\<close>

definition finally_do :: "'a prog \<Rightarrow> unit prog \<Rightarrow> 'a prog" where
  "finally_do m fin =
     (\<lambda>w. case m w of
        (r, w') \<Rightarrow> (case fin w' of (Inl e, w'') \<Rightarrow> (Inl e, w'') | (Inr u, w'') \<Rightarrow> (r, w'')))"

definition emit :: "call \<Rightarrow> unit prog" where
  "emit c = (\<lambda>w. (Inr (), w\<lparr>trace := trace w @ [c]\<rparr>))"

definition log :: "level \<Rightarrow> msg \<Rightarrow> unit prog" where
  "log l m = emit (Log l m)"

text \<open>A library call: recorded, then it fails or succeeds as the environment says.\<close>

definition net :: "netop \<Rightarrow> json list \<Rightarrow> unit prog" where
  "net op args =
     (\<lambda>w. let w' = w\<lparr>trace := trace w @ [Net op args]\<rparr>
          in case outcome w op of None \<Rightarrow> (Inr (), w') | Some e \<Rightarrow> (Inl e, w'))"

definition getitem :: "json \<Rightarrow> string \<Rightarrow> json prog" where
  "getitem v k = lift (py_getitem v k)"

definition resolve :: "world \<Rightarrow> string \<Rightarrow> string list" where
  "resolve w path = path_list (cwd w) path"

text \<open>\<^verbatim>\<open>open(path, 'rb')\<close> and reading the file.\<close>

definition read_file :: "string \<Rightarrow> content prog" where
  "read_file path =
     (\<lambda>w. case lookup (fs w) (resolve w path) of
        Some (File c) \<Rightarrow> (Inr c, w)
      | _ \<Rightarrow> (Inl OSError, w))"

text \<open>\<^verbatim>\<open>open(path, 'w')\<close>, writing the content and closing.\<close>

definition write_file :: "string \<Rightarrow> content \<Rightarrow> unit prog" where
  "write_file path c =
     (\<lambda>w. case put (fs w) (resolve w path) c of
        None \<Rightarrow> (Inl OSError, w)
      | Some t \<Rightarrow> (Inr (), w\<lparr>fs := t, trace := trace w @ [WriteFile path]\<rparr>))"

definition os_remove :: "string \<Rightarrow> unit prog" where
  "os_remove path =
     (\<lambda>w. let w' = w\<lparr>trace := trace w @ [Remove path]\<rparr>
          in case del (fs w) (resolve w path) of
               None \<Rightarrow> (Inl OSError, w')
             | Some t \<Rightarrow> (Inr (), w'\<lparr>fs := t\<rparr>))"

definition os_path_exists :: "world \<Rightarrow> string \<Rightarrow> bool" where
  "os_path_exists w path = (path \<noteq> [] \<and> lookup (fs w) (resolve w path) \<noteq> None)"

section \<open>The transports\<close>

text \<open>
  \<^verbatim>\<open>ftp.connect\<close> sets the session's socket when it succeeds. Leaving the
  \<^verbatim>\<open>with ftplib.FTP() as ftp\<close> block runs ftplib's exit handler: with a socket it sends
  QUIT, ignoring an \<open>OSError\<close> or \<open>EOFError\<close> from it, and closes the socket in any case.
\<close>

definition ftp_connect :: "json \<Rightarrow> json \<Rightarrow> unit prog" where
  "ftp_connect host port =
     bind (net FtpConnect [host, port]) (\<lambda>_ w. (Inr (), w\<lparr>ftp_sock := True\<rparr>))"

definition ftp_close :: "unit prog" where
  "ftp_close = bind (emit (Net FtpClose [])) (\<lambda>_ w. (Inr (), w\<lparr>ftp_sock := False\<rparr>))"

definition ftp_exit :: "unit prog" where
  "ftp_exit =
     (\<lambda>w. if \<not> ftp_sock w then (Inr (), w)
          else finally_do
                 (\<lambda>w1. case net FtpQuit [] w1 of
                          (Inl e, w2) \<Rightarrow>
                            if e = OSError \<or> e = EOFError then (Inr (), w2) else (Inl e, w2)
                        | (Inr u, w2) \<Rightarrow> (Inr (), w2))
                 ftp_close w)"

text \<open>\<^verbatim>\<open>ftplib.FTP()\<close> without a host: a session that has no socket yet.\<close>

definition ftp_new :: "unit prog" where
  "ftp_new = (\<lambda>w. (Inr (), w\<lparr>ftp_sock := False\<rparr>))"

text \<open>The body of the \<^verbatim>\<open>try\<close> of \<^verbatim>\<open>upload_ftp\<close>, lines 65 to 71.\<close>

definition ftp_body :: "json \<Rightarrow> json \<Rightarrow> string \<Rightarrow> unit prog" where
  "ftp_body config ftp_config zip_path =
     bind ftp_new (\<lambda>_.
       finally_do
          (bind (getitem ftp_config ''host'') (\<lambda>host.
           bind (getitem ftp_config ''port'') (\<lambda>port.
           bind (ftp_connect host port) (\<lambda>_.
           bind (getitem ftp_config ''username'') (\<lambda>username.
           bind (getitem ftp_config ''password'') (\<lambda>password.
           bind (net FtpLogin [username, password]) (\<lambda>_.
           bind (getitem config ''server_plugin_dir'') (\<lambda>server_plugin_dir.
           bind (net FtpCwd [server_plugin_dir]) (\<lambda>_.
           bind (read_file zip_path) (\<lambda>f.
           bind (getitem config ''plugin_name'') (\<lambda>plugin_name.
           bind (net FtpStor [plugin_name]) (\<lambda>_.
           log INFO (FtpUploaded zip_path)))))))))))))
          ftp_exit)"

text \<open>\<^verbatim>\<open>upload_ftp(config, zip_path)\<close>, lines 62 to 73.\<close>

definition upload_ftp :: "json \<Rightarrow> string \<Rightarrow> unit prog" where
  "upload_ftp config zip_path =
     bind (getitem config ''ftp'') (\<lambda>ftp_config.
     try_except (ftp_body config ftp_config zip_path) (\<lambda>e. log ERROR (FtpFailed e)))"

text \<open>
  Creating a \<^verbatim>\<open>paramiko.Transport\<close> for a (host, port) pair connects its socket;
  \<^verbatim>\<open>transport.close()\<close> releases it. The world counts the transports that are open.
\<close>

definition transport_new :: "json \<Rightarrow> json \<Rightarrow> unit prog" where
  "transport_new host port =
     bind (net TransportNew [host, port]) (\<lambda>_ w. (Inr (), w\<lparr>transports := transports w + 1\<rparr>))"

definition transport_close :: "unit prog" where
  "transport_close =
     bind (net TransportClose []) (\<lambda>_ w. (Inr (), w\<lparr>transports := transports w - 1\<rparr>))"

text \<open>\<^verbatim>\<open>sftp.put(local, remote)\<close> reads the local file and transfers it.\<close>

definition sftp_put :: "string \<Rightarrow> json \<Rightarrow> json \<Rightarrow> unit prog" where
  "sftp_put zip_path remote_dir name =
     bind (read_file zip_path) (\<lambda>f. net SftpPut [JStr zip_path, remote_dir, name])"

text \<open>The authentication step of \<^verbatim>\<open>upload_sftp\<close>, lines 80 to 84.\<close>

definition sftp_auth :: "json \<Rightarrow> unit prog" where
  "sftp_auth sftp_config =
     bind (lift (py_get sftp_config ''private_key_file'')) (\<lambda>key_file.
     if truthy key_file then
       bind (getitem sftp_config ''private_key_file'') (\<lambda>kf.
       bind (net KeyLoad [kf]) (\<lambda>_.
       bind (getitem sftp_config ''username'') (\<lambda>username.
       net TransportAuth [username, kf])))
     else
       bind (getitem sftp_config ''username'') (\<lambda>username.
       bind (getitem sftp_config ''password'') (\<lambda>password.
       net TransportAuth [username, password])))"

text \<open>
  What follows the creation of the transport inside the \<^verbatim>\<open>try\<close>: authentication,
  the SFTP session and the transfer (lines 80 to 87), then the two closes and the log
  line (lines 88 to 90).
\<close>

definition sftp_transfer :: "json \<Rightarrow> json \<Rightarrow> string \<Rightarrow> (json \<times> json) prog" where
  "sftp_transfer config sftp_config zip_path =
     bind (sftp_auth sftp_config) (\<lambda>_.
     bind (net SftpOpen []) (\<lambda>_.
     bind (getitem config ''server_plugin_dir'') (\<lambda>server_plugin_dir.
     bind (getitem config ''plugin_name'') (\<lambda>plugin_name.
     bind (sftp_put zip_path server_plugin_dir plugin_name) (\<lambda>_.
     ret (server_plugin_dir, plugin_name))))))"

definition sftp_session :: "json \<Rightarrow> json \<Rightarrow> string \<Rightarrow> unit prog" where
  "sftp_session config sftp_config zip_path =
     bind (sftp_transfer config sftp_config zip_path) (\<lambda>remote_path.
     bind (net SftpClose []) (\<lambda>_.
     bind transport_close (\<lambda>_.
     log INFO (SftpUploaded (fst remote_path) (snd remote_path)))))"

text \<open>The body of the \<^verbatim>\<open>try\<close> of \<^verbatim>\<open>upload_sftp\<close>, lines 79 to 90.\<close>

definition sftp_body :: "json \<Rightarrow> json \<Rightarrow> string \<Rightarrow> unit prog" where
  "sftp_body config sftp_config zip_path =
     bind (getitem sftp_config ''host'') (\<lambda>host.
     bind (getitem sftp_config ''port'') (\<lambda>port.
     bind (transport_new host port) (\<lambda>_.
     sftp_session config sftp_config zip_path)))"

text \<open>\<^verbatim>\<open>upload_sftp(config, zip_path)\<close>, lines 76 to 92.\<close>

definition upload_sftp :: "json \<Rightarrow> string \<Rightarrow> unit prog" where
  "upload_sftp config zip_path =
     bind (getitem config ''sftp'') (\<lambda>sftp_config.
     try_except (sftp_body config sftp_config zip_path) (\<lambda>e. log ERROR (SftpFailed e)))"

section \<open>The archiver\<close>

fun is_dir :: "node \<Rightarrow> bool" where
  "is_dir (Dir es) = True"
| "is_dir (File c) = False"

definition dirnames :: "(string \<times> node) list \<Rightarrow> string list" where
  "dirnames es = map fst (filter (\<lambda>e. is_dir (snd e)) es)"

definition filenames :: "(string \<times> node) list \<Rightarrow> string list" where
  "filenames es = map fst (filter (\<lambda>e. \<not> is_dir (snd e)) es)"

text \<open>
  \<^verbatim>\<open>os.walk(top)\<close>, top-down: the triple of a directory, then the walks of its
  subdirectories, each from \<^verbatim>\<open>join(top, name)\<close>. The walk follows the tree; a path
  that is empty, missing or not a directory yields nothing (the scan's error is ignored).
\<close>

fun walk :: "string \<Rightarrow> node \<Rightarrow> (string \<times> string list \<times> string list) list"
  and walk_subs :: "string \<Rightarrow> (string \<times> node) list \<Rightarrow> (string \<times> string list \<times> string list) list"
where
  "walk start (File c) = []"
| "walk start (Dir es) = (start, dirnames es, filenames es) # walk_subs start es"
| "walk_subs start [] = []"
| "walk_subs start (e # es) = walk (os_path_join start (fst e)) (snd e) @ walk_subs start es"

definition os_walk :: "world \<Rightarrow> string \<Rightarrow> (string \<times> string list \<times> string list) list" where
  "os_walk w start =
     (if start = [] then []
      else case lookup (fs w) (resolve w start) of
             Some (Dir es) \<Rightarrow> walk start (Dir es)
           | _ \<Rightarrow> [])"

text \<open>
  The name zipfile gives an entry: the normalised archive name without leading
  separators (an index error when nothing is left).
\<close>

definition zip_arcname :: "string \<Rightarrow> exn + string" where
  "zip_arcname arcname =
     (let a = dropWhile (\<lambda>c. c = CHR ''/'') (normpath arcname)
      in if a = [] then Inl IndexError else Inr a)"

text \<open>\<^verbatim>\<open>zipf.write(filename, arcname)\<close>: one more entry, with the file's content.\<close>

definition zip_write ::
  "world \<Rightarrow> string \<Rightarrow> string \<Rightarrow> (string \<times> content) list \<Rightarrow> exn + (string \<times> content) list" where
  "zip_write w filename arcname entries =
     (case lookup (fs w) (resolve w filename) of
        None \<Rightarrow> Inl OSError
      | Some n \<Rightarrow>
          (case zip_arcname arcname of
             Inl e \<Rightarrow> Inl e
           | Inr a \<Rightarrow>
               (case n of
                  File c \<Rightarrow> Inr (entries @ [(a, c)])
                | Dir es \<Rightarrow> Inr (entries @ [(a @ ''/'', Bytes [])]))))"

text \<open>The body of the inner loop, line 59.\<close>

definition write_one ::
  "world \<Rightarrow> string \<Rightarrow> string \<Rightarrow> string \<Rightarrow> (string \<times> content) list \<Rightarrow> exn + (string \<times> content) list" where
  "write_one w directory root file entries =
     (let filename = os_path_join root file
      in case relpath (cwd w) filename directory of
           Inl e \<Rightarrow> Inl e
         | Inr arcname \<Rightarrow> zip_write w filename arcname entries)"

text \<open>The two loops, lines 57 and 58: the entries written, and the exception that
  stopped the loop, if any.\<close>

fun write_files ::
  "world \<Rightarrow> string \<Rightarrow> string \<Rightarrow> string list \<Rightarrow> (string \<times> content) list
     \<Rightarrow> (string \<times> content) list \<times> exn option" where
  "write_files w directory root [] entries = (entries, None)"
| "write_files w directory root (file # files) entries =
     (case write_one w directory root file entries of
        Inl e \<Rightarrow> (entries, Some e)
      | Inr entries' \<Rightarrow> write_files w directory root files entries')"

fun write_walk ::
  "world \<Rightarrow> string \<Rightarrow> (string \<times> string list \<times> string list) list \<Rightarrow> (string \<times> content) list
     \<Rightarrow> (string \<times> content) list \<times> exn option" where
  "write_walk w directory [] entries = (entries, None)"
| "write_walk w directory (t # ts) entries =
     (case write_files w directory (fst t) (snd (snd t)) entries of
        (entries', Some e) \<Rightarrow> (entries', Some e)
      | (entries', None) \<Rightarrow> write_walk w directory ts entries')"

text \<open>
  \<^verbatim>\<open>zipfile.ZipFile(zip_name, 'w', ZIP_DEFLATED)\<close> creates or truncates the file at once;
  leaving the \<^verbatim>\<open>with\<close> block closes the archive, which writes its directory: from then
  on the file is the archive of the entries written. Until then the file is taken to be
  empty (what it holds while the archive is open depends on buffering).
\<close>

definition zip_open :: "string \<Rightarrow> unit prog" where
  "zip_open zip_name =
     (\<lambda>w. case put (fs w) (resolve w zip_name) (Bytes []) of
        None \<Rightarrow> (Inl OSError, w)
      | Some t \<Rightarrow> (Inr (), w\<lparr>fs := t, trace := trace w @ [ZipOpen zip_name]\<rparr>))"

definition zip_close :: "string \<Rightarrow> (string \<times> content) list \<Rightarrow> unit prog" where
  "zip_close zip_name entries =
     (\<lambda>w. let w' = w\<lparr>trace := trace w @ [ZipClose zip_name]\<rparr>
          in case put (fs w) (resolve w zip_name) (Zip entries) of
               None \<Rightarrow> (Inr (), w')
             | Some t \<Rightarrow> (Inr (), w'\<lparr>fs := t\<rparr>))"

text \<open>\<^verbatim>\<open>create_zip_from_dir(directory, zip_name)\<close>, lines 55 to 59. Only a string can be
  walked; the walk starts after the archive was opened.\<close>

definition create_zip_from_dir :: "json \<Rightarrow> string \<Rightarrow> unit prog" where
  "create_zip_from_dir directory zip_name =
     bind (zip_open zip_name) (\<lambda>_ w.
       case directory of
         JStr d \<Rightarrow>
           (case write_walk w d (os_walk w d) [] of
              (entries, None) \<Rightarrow> zip_close zip_name entries w
            | (entries, Some e) \<Rightarrow> bind (zip_close zip_name entries) (\<lambda>_. raise e) w)
       | _ \<Rightarrow> bind (zip_close zip_name []) (\<lambda>_. raise TypeError) w)"


text \<open>
  What the spec asks of the archive of a directory: one entry for each file under it, at
  any depth, named by the file's path relative to the directory (its components joined
  by the separator) and holding the file's content; \<open>rel\<close> is the path walked so far.
  The number of files of a directory is counted on the tree.
\<close>

fun direct_entries :: "string list \<Rightarrow> (string \<times> node) list \<Rightarrow> (string \<times> content) list" where
  "direct_entries rel [] = []"
| "direct_entries rel (e # es) =
     (case snd e of File c \<Rightarrow> [(sep_join (rel @ [fst e]), c)] | Dir ds \<Rightarrow> [])
       @ direct_entries rel es"



section \<open>The orchestrator\<close>

definition gettempdir :: "string prog" where
  "gettempdir = (\<lambda>w. (Inr (tempdir w), w\<lparr>trace := trace w @ [Gettempdir]\<rparr>))"

text \<open>\<^verbatim>\<open>os.path.join(temp_dir, name)\<close> with a name read from the configuration.\<close>

fun py_join :: "string \<Rightarrow> json \<Rightarrow> exn + string" where
  "py_join a (JStr b) = Inr (os_path_join a b)"
| "py_join a _ = Inl TypeError"

text \<open>
  The dispatch on the configured method, lines 101 to 106. The source reads the method
  from the configuration once for each comparison; the lookup changes nothing and gives
  the same value, so it is made once here.
\<close>

definition dispatch :: "json \<Rightarrow> string \<Rightarrow> unit prog" where
  "dispatch config zip_path =
     bind (getitem config ''upload_method'') (\<lambda>upload_method.
     if upload_method = JStr ''ftp'' then upload_ftp config zip_path
     else if upload_method = JStr ''sftp'' then upload_sftp config zip_path
     else log ERROR InvalidMethod)"

text \<open>The deletion of the scratch file and the last log line, lines 107 to 111.\<close>

definition cleanup :: "string \<Rightarrow> unit prog" where
  "cleanup zip_path =
     bind (try_except (os_remove zip_path) (\<lambda>e. log WARNING (RemoveFailed e))) (\<lambda>_.
     log INFO Reloaded)"

text \<open>\<^verbatim>\<open>upload_plugin(config)\<close>, lines 95 to 111.\<close>

definition upload_plugin :: "json \<Rightarrow> unit prog" where
  "upload_plugin config =
     bind gettempdir (\<lambda>temp_dir.
     bind (getitem config ''plugin_name'') (\<lambda>plugin_name.
     bind (lift (py_join temp_dir plugin_name)) (\<lambda>zip_path.
     bind (getitem config ''plugin_dir'') (\<lambda>plugin_dir.
     bind (create_zip_from_dir plugin_dir zip_path) (\<lambda>_.
     bind (dispatch config zip_path) (\<lambda>_.
     cleanup zip_path))))))"


section \<open>The change watcher\<close>

record event =
  is_directory :: bool
  src_path :: string

text \<open>\<^verbatim>\<open>WatcherHandler.on_modified\<close>, lines 115 to 121; \<open>config\<close> is the module's global.\<close>

definition on_modified :: "json \<Rightarrow> event \<Rightarrow> unit prog" where
  "on_modified config ev =
     (if is_directory ev then ret ()
      else if endswith (src_path ev) ''.py'' then
        bind (log INFO (FileChanged (src_path ev))) (\<lambda>_. upload_plugin config)
      else ret ())"

text \<open>
  The observer's calls. Starting it begins to watch the scheduled path, which must be a
  directory that exists. Its thread runs until the observer is asked to stop, so
  \<^verbatim>\<open>observer.join()\<close> returns only then: joining a running observer never returns.
\<close>

definition observer_start :: "json \<Rightarrow> unit prog" where
  "observer_start path =
     bind (emit (Obs ObserverStart)) (\<lambda>_ w.
       case path of
         JStr p \<Rightarrow>
           (case lookup (fs w) (resolve w p) of
              Some (Dir es) \<Rightarrow> (Inr (), w\<lparr>observer := Running\<rparr>)
            | _ \<Rightarrow> (Inl OSError, w))
       | _ \<Rightarrow> (Inl TypeError, w))"

definition observer_stop :: "world \<Rightarrow> world" where
  "observer_stop w = w\<lparr>observer := Stopping, trace := trace w @ [Obs ObserverStop]\<rparr>"

definition observer_join :: "world \<Rightarrow> ((exn + unit) \<times> world) option" where
  "observer_join w =
     (if observer w = Running then None
      else Some (Inr (), w\<lparr>trace := trace w @ [Obs ObserverJoin]\<rparr>))"

text \<open>Lines 125 to 128 of \<^verbatim>\<open>start_watcher\<close>.\<close>

definition watcher_setup :: "json \<Rightarrow> unit prog" where
  "watcher_setup config =
     bind (emit (Obs ObserverNew)) (\<lambda>_.
     bind (\<lambda>w. (Inr (), w\<lparr>observer := Created\<rparr>)) (\<lambda>_.
     bind (getitem config ''plugin_dir'') (\<lambda>plugin_dir.
     bind (emit (Obs ObserverSchedule)) (\<lambda>_.
     observer_start plugin_dir))))"

text \<open>
  What one turn of the poll loop meets: the event is not set and the sleep of one second
  ends, the event is set, or a keyboard interrupt arrives.
\<close>

datatype poll = NotSet | IsSet | Interrupted

text \<open>The loop of lines 130 to 134: whether it was left by an interrupt. A loop that is
  never left has no result.\<close>

partial_function (option) poll_loop :: "(nat \<Rightarrow> poll) \<Rightarrow> nat \<Rightarrow> bool option" where
  "poll_loop polls i =
     (case polls i of
        IsSet \<Rightarrow> Some False
      | Interrupted \<Rightarrow> Some True
      | NotSet \<Rightarrow> poll_loop polls (Suc i))"

text \<open>\<^verbatim>\<open>start_watcher(config, stop_event)\<close>, lines 124 to 136.\<close>

definition start_watcher :: "json \<Rightarrow> (nat \<Rightarrow> poll) \<Rightarrow> world \<Rightarrow> ((exn + unit) \<times> world) option" where
  "start_watcher config polls w =
     (case watcher_setup config w of
        (Inl e, w1) \<Rightarrow> Some (Inl e, w1)
      | (Inr u, w1) \<Rightarrow>
          (case poll_loop polls 0 of
             None \<Rightarrow> None
           | Some interrupted \<Rightarrow>
               observer_join (if interrupted then observer_stop w1 else w1)))"

section \<open>The command interface\<close>

text \<open>
  The console is the list of the lines \<^verbatim>\<open>input()\<close> will read; at its end
  \<^verbatim>\<open>input()\<close> raises \<open>EOFError\<close>.
\<close>

text \<open>\<^verbatim>\<open>manual_upload(config)\<close>, lines 139 to 147.\<close>

fun manual_upload :: "json \<Rightarrow> string list \<Rightarrow> world \<Rightarrow> (exn + unit) \<times> world" where
  "manual_upload config [] w = (Inl EOFError, w)"
| "manual_upload config (command # rest) w =
     (if lower command = ''upload'' then
        (case upload_plugin config w of
           (Inl e, w') \<Rightarrow> (Inl e, w')
         | (Inr u, w') \<Rightarrow> manual_upload config rest w')
      else if lower command = ''exit'' then (Inr (), w)
      else manual_upload config rest (w\<lparr>trace := trace w @ [PrintInvalid]\<rparr>))"

text \<open>\<^verbatim>\<open>listen_for_exit(stop_event)\<close>, lines 150 to 155: whether it sets the event (at
  the end of the input its thread dies of \<open>EOFError\<close> and the event stays unset).\<close>

fun listen_for_exit :: "string list \<Rightarrow> bool" where
  "listen_for_exit [] = False"
| "listen_for_exit (command # rest) =
     (if lower command = ''exit'' then True else listen_for_exit rest)"

text \<open>The calls that close an SFTP session or a transport.\<close>

fun is_close :: "call \<Rightarrow> bool" where
  "is_close (Net op args) = (op = SftpClose \<or> op = TransportClose)"
| "is_close _ = False"

text \<open>The calls on the observer.\<close>

fun is_obs :: "call \<Rightarrow> bool" where
  "is_obs (Obs op) = True"
| "is_obs _ = False"

text \<open>
  The calls that mark a run of the orchestrator (it asks for the scratch directory once,
  first thing) or touch the observer. No other operation of the program makes them.
\<close>

fun is_mark :: "call \<Rightarrow> bool" where
  "is_mark Gettempdir = True"
| "is_mark (Obs op) = True"
| "is_mark _ = False"

text \<open>A network whose failures are ordinary exceptions, not interrupts.\<close>

definition net_ok :: "world \<Rightarrow> bool" where
  "net_ok w = (\<forall>op e. outcome w op = Some e \<longrightarrow> is_Exception e)"

text \<open>
  An operation is tame when it leaves the network's behaviour and the observer alone,
  only adds to the trace, and no marking call, and, on a network whose failures are
  ordinary exceptions, raises only ordinary exceptions.
\<close>

definition tame :: "'a prog \<Rightarrow> bool" where
  "tame m =
     (\<forall>w r w'. m w = (r, w') \<longrightarrow>
        outcome w' = outcome w \<and> observer w' = observer w
        \<and> filter is_mark (trace w') = filter is_mark (trace w)
        \<and> (\<forall>e. r = Inl e \<longrightarrow> net_ok w \<longrightarrow> is_Exception e)
        \<and> (\<exists>tr. trace w' = trace w @ tr))"

section \<open>The configuration file\<close>

text \<open>
  \<^verbatim>\<open>json.dump(obj, f, indent=4)\<close>: the text Python's encoder writes. Strings are
  escaped as with \<^verbatim>\<open>ensure_ascii\<close>; characters are bytes here, so an escape
  \<^verbatim>\<open>\uXXXX\<close> always has two leading zeros.
\<close>

definition hex_digit :: "nat \<Rightarrow> char" where
  "hex_digit n = (if n < 10 then char_of (48 + n) else char_of (87 + n))"

definition escape_char :: "char \<Rightarrow> string" where
  "escape_char c =
     (let n = (of_char c :: nat) in
      if c = CHR 0x22 then [CHR 0x5C, CHR 0x22]
      else if c = CHR 0x5C then [CHR 0x5C, CHR 0x5C]
      else if c = CHR 0x0A then [CHR 0x5C, CHR ''n'']
      else if c = CHR 0x0D then [CHR 0x5C, CHR ''r'']
      else if c = CHR 0x09 then [CHR 0x5C, CHR ''t'']
      else if c = CHR 0x08 then [CHR 0x5C, CHR ''b'']
      else if c = CHR 0x0C then [CHR 0x5C, CHR ''f'']
      else if n < 32 \<or> 126 < n then
        [CHR 0x5C, CHR ''u'', CHR ''0'', CHR ''0'', hex_digit (n div 16), hex_digit (n mod 16)]
      else [c])"

definition encode_string :: "string \<Rightarrow> string" where
  "encode_string s = CHR 0x22 # concat (map escape_char s) @ [CHR 0x22]"

function dec_nat :: "nat \<Rightarrow> string" where
  "dec_nat n = (if n < 10 then [char_of (48 + n)] else dec_nat (n div 10) @ [char_of (48 + n mod 10)])"
  by pat_completeness auto
termination
  by (relation "measure (\<lambda>n. n)") auto

definition dec_int :: "int \<Rightarrow> string" where
  "dec_int i = (if i < 0 then CHR ''-'' # dec_nat (nat (- i)) else dec_nat (nat i))"

definition newline_indent :: "nat \<Rightarrow> string" where
  "newline_indent lvl = CHR 0x0A # replicate (4 * lvl) (CHR '' '')"

fun dumps :: "nat \<Rightarrow> json \<Rightarrow> string"
  and dump_items :: "nat \<Rightarrow> json list \<Rightarrow> string"
  and dump_members :: "nat \<Rightarrow> (string \<times> json) list \<Rightarrow> string"
where
  "dumps lvl JNull = ''null''"
| "dumps lvl (JBool b) = (if b then ''true'' else ''false'')"
| "dumps lvl (JInt i) = dec_int i"
| "dumps lvl (JFloat s) = s"
| "dumps lvl (JStr s) = encode_string s"
| "dumps lvl (JArr []) = ''[]''"
| "dumps lvl (JArr (x # xs)) =
     ''['' @ newline_indent (Suc lvl) @ dump_items (Suc lvl) (x # xs) @ newline_indent lvl @ '']''"
| "dumps lvl (JObj []) = ''{}''"
| "dumps lvl (JObj (kv # kvs)) =
     ''{'' @ newline_indent (Suc lvl) @ dump_members (Suc lvl) (kv # kvs) @ newline_indent lvl @ ''}''"
| "dump_items lvl [] = []"
| "dump_items lvl [x] = dumps lvl x"
| "dump_items lvl (x # y # ys) = dumps lvl x @ '','' @ newline_indent lvl @ dump_items lvl (y # ys)"
| "dump_members lvl [] = []"
| "dump_members lvl [kv] = encode_string (fst kv) @ '': '' @ dumps lvl (snd kv)"
| "dump_members lvl (kv # kv' # kvs) =
     encode_string (fst kv) @ '': '' @ dumps lvl (snd kv) @ '','' @ newline_indent lvl
       @ dump_members lvl (kv' # kvs)"

definition json_dumps :: "json \<Rightarrow> string" where
  "json_dumps v = dumps 0 v"

text \<open>
  \<^verbatim>\<open>json.load\<close>: Python's decoder on the text of the file. A repeated key keeps its
  first place and its last value. The fuel bounds the nesting (Python's own bound is its
  recursion limit); the length of the text is always enough. An escape \<^verbatim>\<open>\uXXXX\<close>
  beyond one byte is outside this model and read as an error.
\<close>

definition is_ws :: "char \<Rightarrow> bool" where
  "is_ws c = (c = CHR '' '' \<or> c = CHR 0x09 \<or> c = CHR 0x0A \<or> c = CHR 0x0D)"

definition skip_ws :: "string \<Rightarrow> string" where
  "skip_ws s = dropWhile is_ws s"

definition is_digit :: "char \<Rightarrow> bool" where
  "is_digit c = (let n = (of_char c :: nat) in 48 \<le> n \<and> n \<le> 57)"

definition hex_val :: "char \<Rightarrow> nat option" where
  "hex_val c =
     (let n = (of_char c :: nat) in
      if 48 \<le> n \<and> n \<le> 57 then Some (n - 48)
      else if 97 \<le> n \<and> n \<le> 102 then Some (n - 87)
      else if 65 \<le> n \<and> n \<le> 70 then Some (n - 55)
      else None)"

definition hex4 :: "string \<Rightarrow> char option" where
  "hex4 s =
     (case map hex_val (take 4 s) of
        [Some a, Some b, Some c, Some d] \<Rightarrow>
          if a = 0 \<and> b = 0 then Some (char_of (16 * c + d)) else None
      | _ \<Rightarrow> None)"

definition unescape :: "char \<Rightarrow> char option" where
  "unescape e =
     (if e = CHR 0x22 then Some (CHR 0x22)
      else if e = CHR 0x5C then Some (CHR 0x5C)
      else if e = CHR ''/'' then Some (CHR ''/'')
      else if e = CHR ''b'' then Some (CHR 0x08)
      else if e = CHR ''f'' then Some (CHR 0x0C)
      else if e = CHR ''n'' then Some (CHR 0x0A)
      else if e = CHR ''r'' then Some (CHR 0x0D)
      else if e = CHR ''t'' then Some (CHR 0x09)
      else None)"

definition cons_fst :: "char \<Rightarrow> (string \<times> string) option \<Rightarrow> (string \<times> string) option" where
  "cons_fst c r = (case r of None \<Rightarrow> None | Some (s, rest) \<Rightarrow> Some (c # s, rest))"

text \<open>The text of a string after its opening quote: the string and what follows the
  closing quote.\<close>

fun scan_string :: "string \<Rightarrow> (string \<times> string) option" where
  "scan_string [] = None"
| "scan_string (c # cs) =
     (if c = CHR 0x22 then Some ([], cs)
      else if c = CHR 0x5C then
        (case cs of
           [] \<Rightarrow> None
         | e # r \<Rightarrow>
             if e = CHR ''u'' then
               (case hex4 r of
                  None \<Rightarrow> None
                | Some ch \<Rightarrow> cons_fst ch (scan_string (drop 4 r)))
             else
               (case unescape e of
                  None \<Rightarrow> None
                | Some ch \<Rightarrow> cons_fst ch (scan_string r)))
      else if (of_char c :: nat) < 32 then None
      else cons_fst c (scan_string cs))"

definition digits_val :: "string \<Rightarrow> nat" where
  "digits_val ds = foldl (\<lambda>a c. 10 * a + (of_char c - 48)) 0 ds"

text \<open>
  A number, by the decoder's pattern: an integer part (a zero, or digits that do not
  start with zero), an optional fraction, an optional exponent.
\<close>

definition scan_number :: "string \<Rightarrow> (json \<times> string) option" where
  "scan_number s =
     (let neg = startswith s ''-'';
          s1 = (if neg then tl s else s);
          ds = (if startswith s1 ''0'' then ''0'' else takeWhile is_digit s1);
          s2 = drop (length ds) s1;
          frac = (case s2 of
                    c # r \<Rightarrow> if c = CHR ''.'' \<and> takeWhile is_digit r \<noteq> []
                               then c # takeWhile is_digit r else []
                  | [] \<Rightarrow> []);
          s3 = drop (length frac) s2;
          sgn = (case s3 of
                   c # d # r \<Rightarrow> if (c = CHR ''e'' \<or> c = CHR ''E'') \<and> (d = CHR ''+'' \<or> d = CHR ''-'')
                                  then [c, d] else if c = CHR ''e'' \<or> c = CHR ''E'' then [c] else []
                 | [c] \<Rightarrow> if c = CHR ''e'' \<or> c = CHR ''E'' then [c] else []
                 | [] \<Rightarrow> []);
          ex = (if sgn \<noteq> [] \<and> takeWhile is_digit (drop (length sgn) s3) \<noteq> []
                then sgn @ takeWhile is_digit (drop (length sgn) s3) else []);
          s4 = drop (length ex) s3
      in if ds = [] then None
         else if frac = [] \<and> ex = [] then
           Some (JInt (if neg then - int (digits_val ds) else int (digits_val ds)), s4)
         else Some (JFloat ((if neg then ''-'' else []) @ ds @ frac @ ex), s4))"

fun dict_set :: "(string \<times> json) list \<Rightarrow> string \<Rightarrow> json \<Rightarrow> (string \<times> json) list" where
  "dict_set [] k v = [(k, v)]"
| "dict_set ((k', v') # kvs) k v =
     (if k' = k then (k, v) # kvs else (k', v') # dict_set kvs k v)"

fun parse_value :: "nat \<Rightarrow> string \<Rightarrow> (json \<times> string) option"
  and parse_items :: "nat \<Rightarrow> string \<Rightarrow> json list \<Rightarrow> (json \<times> string) option"
  and parse_members :: "nat \<Rightarrow> string \<Rightarrow> (string \<times> json) list \<Rightarrow> (json \<times> string) option"
where
  "parse_value 0 s = None"
| "parse_value (Suc n) s =
     (case s of
        [] \<Rightarrow> None
      | c # cs \<Rightarrow>
          if c = CHR 0x22 then
            (case scan_string cs of None \<Rightarrow> None | Some (str, r) \<Rightarrow> Some (JStr str, r))
          else if c = CHR ''{'' then
            (case skip_ws cs of
               [] \<Rightarrow> None
             | d # r \<Rightarrow> if d = CHR ''}'' then Some (JObj [], r) else parse_members n (d # r) [])
          else if c = CHR ''['' then
            (case skip_ws cs of
               [] \<Rightarrow> None
             | d # r \<Rightarrow> if d = CHR '']'' then Some (JArr [], r) else parse_items n (d # r) [])
          else if startswith s ''null'' then Some (JNull, drop 4 s)
          else if startswith s ''true'' then Some (JBool True, drop 4 s)
          else if startswith s ''false'' then Some (JBool False, drop 5 s)
          else if startswith s ''NaN'' then Some (JFloat ''NaN'', drop 3 s)
          else if startswith s ''Infinity'' then Some (JFloat ''Infinity'', drop 8 s)
          else if startswith s ''-Infinity'' then Some (JFloat ''-Infinity'', drop 9 s)
          else scan_number s)"
| "parse_items 0 s acc = None"
| "parse_items (Suc n) s acc =
     (case parse_value n s of
        None \<Rightarrow> None
      | Some (v, r) \<Rightarrow>
          (case skip_ws r of
             [] \<Rightarrow> None
           | d # r' \<Rightarrow>
               if d = CHR '','' then parse_items n (skip_ws r') (acc @ [v])
               else if d = CHR '']'' then Some (JArr (acc @ [v]), r')
               else None))"
| "parse_members 0 s acc = None"
| "parse_members (Suc n) s acc =
     (case s of
        [] \<Rightarrow> None
      | q # cs \<Rightarrow>
          if q \<noteq> CHR 0x22 then None
          else
            (case scan_string cs of
               None \<Rightarrow> None
             | Some (k, r) \<Rightarrow>
                 (case skip_ws r of
                    [] \<Rightarrow> None
                  | col # r1 \<Rightarrow>
                      if col \<noteq> CHR '':'' then None
                      else
                        (case parse_value n (skip_ws r1) of
                           None \<Rightarrow> None
                         | Some (v, r2) \<Rightarrow>
                             (case skip_ws r2 of
                                [] \<Rightarrow> None
                              | d # r3 \<Rightarrow>
                                  if d = CHR '','' then
                                    parse_members n (skip_ws r3) (dict_set acc k v)
                                  else if d = CHR ''}'' then Some (JObj (dict_set acc k v), r3)
                                  else None)))))"

definition json_loads :: "string \<Rightarrow> exn + json" where
  "json_loads s =
     (case parse_value (Suc (length s)) (skip_ws s) of
        None \<Rightarrow> Inl JSONDecodeError
      | Some (v, r) \<Rightarrow> if skip_ws r = [] then Inr v else Inl JSONDecodeError)"

definition CONFIG_FILE :: string where
  "CONFIG_FILE = ''config.json''"

definition DEFAULT_CONFIG :: json where
  "DEFAULT_CONFIG = JObj [
     (''plugin_dir'', JStr ''/path/to/your/plugin''),
     (''server_plugin_dir'', JStr ''/path/to/server/plugins''),
     (''plugin_name'', JStr ''your_plugin_name.zip''),
     (''auto_upload'', JBool True),
     (''upload_method'', JStr ''ftp''),
     (''ftp'', JObj [
        (''host'', JStr ''ftp.example.com''),
        (''port'', JInt 21),
        (''username'', JStr ''your_ftp_username''),
        (''password'', JStr ''your_ftp_password'')]),
     (''sftp'', JObj [
        (''host'', JStr ''sftp.example.com''),
        (''port'', JInt 22),
        (''username'', JStr ''your_sftp_username''),
        (''password'', JStr ''your_sftp_password''),
        (''private_key_file'', JStr ''/path/to/private/key'')])]"

text \<open>\<^verbatim>\<open>json.load(f)\<close> on an open file: a file that is not text cannot be decoded.\<close>

fun json_load :: "content \<Rightarrow> exn + json" where
  "json_load (Bytes t) = json_loads t"
| "json_load (Zip entries) = Inl JSONDecodeError"

text \<open>\<^verbatim>\<open>load_config()\<close>, lines 43 to 52.\<close>

definition load_config :: "json prog" where
  "load_config =
     (\<lambda>w. if \<not> os_path_exists w CONFIG_FILE then
            bind (log INFO ConfigMissing) (\<lambda>_.
            bind (write_file CONFIG_FILE (Bytes (json_dumps DEFAULT_CONFIG))) (\<lambda>_.
            bind (log INFO ConfigCreated) (\<lambda>_.
            ret DEFAULT_CONFIG))) w
          else
            bind (read_file CONFIG_FILE) (\<lambda>f. lift (json_load f)) w)"

text \<open>
  The two threads of the automatic mode, lines 164 to 180, in one order of events: the
  listener reads the console; when it sets the event, the watcher's loop sees it at its
  turn \<open>delay\<close>. An exception in the watcher's thread ends that thread only.
\<close>

definition auto_mode :: "json \<Rightarrow> string list \<Rightarrow> nat \<Rightarrow> world \<Rightarrow> ((exn + unit) \<times> world) option" where
  "auto_mode config console delay w =
     (case start_watcher config
             (\<lambda>i. if listen_for_exit console \<and> delay \<le> i then IsSet else NotSet) w of
        None \<Rightarrow> None
      | Some (r, w') \<Rightarrow> Some (log INFO Exited w'))"

text \<open>The main program, lines 157 to 183.\<close>

definition main :: "string list \<Rightarrow> nat \<Rightarrow> world \<Rightarrow> ((exn + unit) \<times> world) option" where
  "main console delay w =
     (case bind (log INFO Started) (\<lambda>_. load_config) w of
        (Inl e, w1) \<Rightarrow> Some (Inl e, w1)
      | (Inr config, w1) \<Rightarrow>
          (case py_getitem config ''auto_upload'' of
             Inl e \<Rightarrow> Some (Inl e, w1)
           | Inr flag \<Rightarrow>
               if truthy flag then
                 auto_mode config console delay (snd (log INFO AutoMode w1))
               else
                 Some (manual_upload config console (snd (log INFO ManualMode w1)))))"

section \<open>Sample inputs\<close>

text \<open>
  A configuration with every field, for the given upload method; a small file system
  with a plugin directory of three files at two depths, a scratch directory and a
  working directory; a network in which one chosen library call fails.
\<close>

definition sample_config :: "string \<Rightarrow> json" where
  "sample_config method = JObj [
     (''plugin_dir'', JStr ''/src''),
     (''server_plugin_dir'', JStr ''/plugins''),
     (''plugin_name'', JStr ''plugin.zip''),
     (''auto_upload'', JBool False),
     (''upload_method'', JStr method),
     (''ftp'', JObj [(''host'', JStr ''ftp.test''), (''port'', JInt 21),
        (''username'', JStr ''u''), (''password'', JStr ''p'')]),
     (''sftp'', JObj [(''host'', JStr ''sftp.test''), (''port'', JInt 22),
        (''username'', JStr ''u''), (''password'', JStr ''p'')])]"

definition sample_fs :: node where
  "sample_fs = Dir [
     (''src'', Dir [
        (''plugin.py'', File (Bytes ''print(1)'')),
        (''lib'', Dir [
           (''util.py'', File (Bytes ''x = 1'')),
           (''notes.txt'', File (Bytes ''todo''))])]),
     (''tmp'', Dir [(''plugin.zip'', File (Bytes ''old''))]),
     (''work'', Dir [])]"

definition failing :: "netop \<Rightarrow> netop \<Rightarrow> exn option" where
  "failing bad op = (if op = bad then Some (LibError ''refused'') else None)"

definition sample_world :: "(netop \<Rightarrow> exn option) \<Rightarrow> world" where
  "sample_world net_outcome =
     \<lparr>fs = sample_fs, cwd = ''/work'', tempdir = ''/tmp'', outcome = net_outcome,
      ftp_sock = False, transports = 0, observer = NoObserver, trace = []\<rparr>"



text \<open>The same world with a configuration file of the given text in the working
  directory.\<close>

definition world_with_config :: "string \<Rightarrow> world" where
  "world_with_config t =
     \<lparr>fs = Dir [
        (''src'', Dir [(''plugin.py'', File (Bytes ''print(1)''))]),
        (''tmp'', Dir []),
        (''work'', Dir [(''config.json'', File (Bytes t))])],
      cwd = ''/work'', tempdir = ''/tmp'', outcome = (\<lambda>op. None),
      ftp_sock = False, transports = 0, observer = NoObserver, trace = []\<rparr>"

section \<open>Properties of the transports\<close>

lemmas prog_defs = ret_def raise_def lift_def bind_def try_except_def finally_do_def
  emit_def log_def net_def getitem_def

lemma is_Exception_iff: "is_Exception e \<longleftrightarrow> e \<noteq> KeyboardInterrupt"
  by (cases e) simp_all

lemma sftp_auth_frame:
  "sftp_auth sc w = (r, w') \<Longrightarrow>
     transports w' = transports w \<and> filter is_close (trace w') = filter is_close (trace w)"
  unfolding sftp_auth_def
  by (auto simp: prog_defs Let_def split: sum.splits if_splits option.splits prod.splits)

lemma sftp_transfer_frame:
  "sftp_transfer config sc zp w = (r, w') \<Longrightarrow>
     transports w' = transports w \<and> filter is_close (trace w') = filter is_close (trace w)"
  unfolding sftp_transfer_def sftp_put_def read_file_def
  by (auto simp: prog_defs Let_def
        split: sum.splits if_splits option.splits prod.splits node.splits
        dest!: sftp_auth_frame)

text \<open>
  C10. Once \<^verbatim>\<open>upload_sftp\<close> has created the transport (the constructor returned), a
  failure of what follows up to the transfer (the key file, the authentication, the
  SFTP session, the lookups of the remote path, the put) is caught: the function
  returns normally and its last action is the error's log line. On that path no close
  was called, neither the session's nor the transport's, and the transport created is
  left open: the world has one open transport more than before.
\<close>

theorem upload_sftp_failure_leaves_transport_open:
  assumes sect: "py_getitem config ''sftp'' = Inr sftp_config"
      and host: "py_getitem sftp_config ''host'' = Inr host"
      and port: "py_getitem sftp_config ''port'' = Inr port"
      and conn: "fst (transport_new host port w) = Inr ()"
      and fail: "fst (sftp_transfer config sftp_config zip_path (snd (transport_new host port w))) = Inl e"
      and exc: "is_Exception e"
  shows "fst (upload_sftp config zip_path w) = Inr ()
       \<and> last (trace (snd (upload_sftp config zip_path w))) = Log ERROR (SftpFailed e)
       \<and> transports (snd (upload_sftp config zip_path w)) = transports w + 1
       \<and> filter is_close (trace (snd (upload_sftp config zip_path w))) = filter is_close (trace w)"
proof -
  obtain w1 where w1: "transport_new host port w = (Inr (), w1)"
    using conn by (cases "transport_new host port w") auto
  obtain w2 where w2: "sftp_transfer config sftp_config zip_path w1 = (Inl e, w2)"
    using fail w1 by (cases "sftp_transfer config sftp_config zip_path w1") auto
  have run: "upload_sftp config zip_path w =
               (Inr (), w2\<lparr>trace := trace w2 @ [Log ERROR (SftpFailed e)]\<rparr>)"
    using sect host port w1 w2 exc
    by (simp add: upload_sftp_def sftp_body_def sftp_session_def prog_defs)
  have f1: "transports w1 = transports w + 1
            \<and> filter is_close (trace w1) = filter is_close (trace w)"
    using w1 by (auto simp: transport_new_def prog_defs Let_def split: option.splits)
  from sftp_transfer_frame [OF w2] f1 run show ?thesis by simp
qed

text \<open>The put fails on a server that accepted the connection and the password.\<close>

theorem upload_sftp_failure_leaves_transport_open_witness:
  "fst (upload_sftp (sample_config ''sftp'') ''/tmp/plugin.zip'' (sample_world (failing SftpPut)))
     = Inr ()
   \<and> last (trace (snd (upload_sftp (sample_config ''sftp'') ''/tmp/plugin.zip''
                         (sample_world (failing SftpPut)))))
       = Log ERROR (SftpFailed (LibError ''refused''))
   \<and> transports (snd (upload_sftp (sample_config ''sftp'') ''/tmp/plugin.zip''
                         (sample_world (failing SftpPut)))) = 1
   \<and> filter is_close (trace (snd (upload_sftp (sample_config ''sftp'') ''/tmp/plugin.zip''
                         (sample_world (failing SftpPut))))) = []"
proof -
  let ?sc = "JObj [(''host'', JStr ''sftp.test''), (''port'', JInt 22),
        (''username'', JStr ''u''), (''password'', JStr ''p'')]"
  let ?w = "sample_world (failing SftpPut)"
  have h1: "py_getitem (sample_config ''sftp'') ''sftp'' = Inr ?sc" by code_simp
  have h2: "py_getitem ?sc ''host'' = Inr (JStr ''sftp.test'')" by code_simp
  have h3: "py_getitem ?sc ''port'' = Inr (JInt 22)" by code_simp
  have h4: "fst (transport_new (JStr ''sftp.test'') (JInt 22) ?w) = Inr ()" by code_simp
  have h5: "fst (sftp_transfer (sample_config ''sftp'') ?sc ''/tmp/plugin.zip''
               (snd (transport_new (JStr ''sftp.test'') (JInt 22) ?w)))
              = Inl (LibError ''refused'')"
    by code_simp
  have h6: "is_Exception (LibError ''refused'')" by simp
  have t: "transports ?w = 0" "trace ?w = []" by (simp_all add: sample_world_def)
  from upload_sftp_failure_leaves_transport_open [OF h1 h2 h3 h4 h5 h6] t
  show ?thesis by simp
qed

section \<open>Tame operations\<close>

lemma tameD:
  assumes "tame m" and "m w = (r, w')"
  shows "outcome w' = outcome w" and "observer w' = observer w"
    and "filter is_mark (trace w') = filter is_mark (trace w)"
    and "r = Inl e \<Longrightarrow> net_ok w \<Longrightarrow> is_Exception e"
    and "\<exists>tr. trace w' = trace w @ tr"
  using assms unfolding tame_def by blast+

lemma net_ok_cong: "outcome w' = outcome w \<Longrightarrow> net_ok w' = net_ok w"
  by (simp add: net_ok_def)

lemma tameI:
  assumes "\<And>w r w'. m w = (r, w') \<Longrightarrow>
             outcome w' = outcome w \<and> observer w' = observer w
             \<and> filter is_mark (trace w') = filter is_mark (trace w)
             \<and> (\<forall>e. r = Inl e \<longrightarrow> net_ok w \<longrightarrow> is_Exception e)
             \<and> (\<exists>tr. trace w' = trace w @ tr)"
  shows "tame m"
  unfolding tame_def using assms by blast

lemma tame_bind:
  assumes "tame m" and "\<And>x. tame (f x)"
  shows "tame (bind m f)"
proof (rule tameI)
  fix w r w' assume run: "bind m f w = (r, w')"
  obtain r1 w1 where m: "m w = (r1, w1)" by (cases "m w")
  note a = tameD [OF assms(1) m]
  show "outcome w' = outcome w \<and> observer w' = observer w
        \<and> filter is_mark (trace w') = filter is_mark (trace w)
        \<and> (\<forall>e. r = Inl e \<longrightarrow> net_ok w \<longrightarrow> is_Exception e)
        \<and> (\<exists>tr. trace w' = trace w @ tr)"
  proof (cases r1)
    case (Inl e)
    with run m have "r = Inl e" "w' = w1" by (simp_all add: bind_def)
    with a Inl show ?thesis by auto
  next
    case (Inr x)
    with run m have f: "f x w1 = (r, w')" by (simp add: bind_def)
    note b = tameD [OF assms(2) f]
    from a(5) b(5) have "\<exists>tr. trace w' = trace w @ tr" by auto
    with a(1-3) b(1-3) b(4) net_ok_cong [OF a(1)] show ?thesis by auto
  qed
qed

lemma tame_try:
  assumes "tame m" and "\<And>e. tame (h e)"
  shows "tame (try_except m h)"
proof (rule tameI)
  fix w r w' assume run: "try_except m h w = (r, w')"
  obtain r1 w1 where m: "m w = (r1, w1)" by (cases "m w")
  note a = tameD [OF assms(1) m]
  show "outcome w' = outcome w \<and> observer w' = observer w
        \<and> filter is_mark (trace w') = filter is_mark (trace w)
        \<and> (\<forall>e. r = Inl e \<longrightarrow> net_ok w \<longrightarrow> is_Exception e)
        \<and> (\<exists>tr. trace w' = trace w @ tr)"
  proof (cases r1)
    case (Inl e)
    show ?thesis
    proof (cases "is_Exception e")
      case True
      with run m Inl have h: "h e w1 = (r, w')" by (simp add: try_except_def)
      note b = tameD [OF assms(2) h]
      from a(5) b(5) have "\<exists>tr. trace w' = trace w @ tr" by auto
      with a(1-3) b(1-3) b(4) net_ok_cong [OF a(1)] show ?thesis by auto
    next
      case False
      with run m Inl have "r = Inl e" "w' = w1" by (simp_all add: try_except_def)
      with a Inl show ?thesis by auto
    qed
  next
    case (Inr x)
    with run m have "r = Inr x" "w' = w1" by (simp_all add: try_except_def)
    with a show ?thesis by auto
  qed
qed

lemma tame_finally:
  assumes "tame m" and "tame fin"
  shows "tame (finally_do m fin)"
proof (rule tameI)
  fix w r w' assume run: "finally_do m fin w = (r, w')"
  obtain r1 w1 where m: "m w = (r1, w1)" by (cases "m w")
  obtain r2 w2 where f: "fin w1 = (r2, w2)" by (cases "fin w1")
  note a = tameD [OF assms(1) m]
  note b = tameD [OF assms(2) f]
  have w': "w' = w2" using run m f by (cases r2) (simp_all add: finally_do_def)
  have r: "r = (case r2 of Inl e \<Rightarrow> Inl e | Inr u \<Rightarrow> r1)"
    using run m f by (cases r2) (simp_all add: finally_do_def)
  from a(5) b(5) w' have "\<exists>tr. trace w' = trace w @ tr" by auto
  then show "outcome w' = outcome w \<and> observer w' = observer w
        \<and> filter is_mark (trace w') = filter is_mark (trace w)
        \<and> (\<forall>e. r = Inl e \<longrightarrow> net_ok w \<longrightarrow> is_Exception e)
        \<and> (\<exists>tr. trace w' = trace w @ tr)"
    using a(1-3) b(1-3) a(4) b(4) net_ok_cong [OF a(1)] w' r
    by (cases r2) auto
qed

lemma tame_if: "tame a \<Longrightarrow> tame b \<Longrightarrow> tame (if c then a else b)"
  by simp

lemma tame_ret: "tame (ret x)"
  by (simp add: tame_def ret_def)

lemma py_getitem_exn: "py_getitem v k = Inl e \<Longrightarrow> is_Exception e"
  by (cases v) (auto split: option.splits)

lemma py_get_exn: "py_get v k = Inl e \<Longrightarrow> is_Exception e"
  by (cases v) (auto split: option.splits)

lemma py_join_exn: "py_join a v = Inl e \<Longrightarrow> is_Exception e"
  by (cases v) auto

lemma tame_getitem: "tame (getitem v k)"
  by (auto simp: tame_def getitem_def lift_def dest: py_getitem_exn)

lemma tame_py_get: "tame (lift (py_get v k))"
  by (auto simp: tame_def lift_def dest: py_get_exn)

lemma tame_py_join: "tame (lift (py_join a v))"
  by (auto simp: tame_def lift_def dest: py_join_exn)

lemma tame_raise: "is_Exception e \<Longrightarrow> tame (raise e)"
  by (auto simp: tame_def raise_def)

lemma tame_net: "tame (net op args)"
  by (auto simp: tame_def net_def net_ok_def Let_def split: option.splits)

lemma tame_emit: "\<not> is_mark c \<Longrightarrow> tame (emit c)"
  by (auto simp: tame_def emit_def)

lemma tame_log: "tame (log l m)"
  by (simp add: log_def tame_emit)

lemma tame_read_file: "tame (read_file p)"
  by (auto simp: tame_def read_file_def split: option.splits node.splits)

lemma tame_write_file: "tame (write_file p c)"
  by (auto simp: tame_def write_file_def split: option.splits)

lemma tame_os_remove: "tame (os_remove p)"
  by (auto simp: tame_def os_remove_def Let_def split: option.splits)

lemma tame_zip_open: "tame (zip_open z)"
  by (auto simp: tame_def zip_open_def split: option.splits)

lemma tame_zip_close: "tame (zip_close z es)"
  by (auto simp: tame_def zip_close_def Let_def split: option.splits)

lemma tame_ftp_new: "tame ftp_new"
  by (auto simp: tame_def ftp_new_def)

lemma tame_ftp_connect: "tame (ftp_connect h p)"
  unfolding ftp_connect_def
  by (intro tame_bind tame_net) (auto simp: tame_def)

lemma tame_ftp_close: "tame ftp_close"
  unfolding ftp_close_def
  by (intro tame_bind tame_emit) (auto simp: tame_def)

lemma tame_ftp_exit: "tame ftp_exit"
proof -
  let ?quit = "\<lambda>w1. case net FtpQuit [] w1 of
                      (Inl e, w2) \<Rightarrow> if e = OSError \<or> e = EOFError then (Inr (), w2) else (Inl e, w2)
                    | (Inr u, w2) \<Rightarrow> (Inr (), w2)"
  have q: "tame ?quit"
    using tame_net [of FtpQuit "[]"]
    by (auto simp: tame_def split: prod.splits sum.splits if_splits)
  have "tame (\<lambda>w. if \<not> ftp_sock w then (Inr (), w) else finally_do ?quit ftp_close w)"
    using tame_finally [OF q tame_ftp_close]
    by (auto simp: tame_def)
  then show ?thesis by (simp add: ftp_exit_def)
qed

lemma tame_transport_new: "tame (transport_new h p)"
  unfolding transport_new_def
  by (intro tame_bind tame_net) (auto simp: tame_def)

lemma tame_transport_close: "tame transport_close"
  unfolding transport_close_def
  by (intro tame_bind tame_net) (auto simp: tame_def)

lemmas tame_intros = tame_bind tame_try tame_finally tame_if tame_ret tame_getitem tame_py_get
  tame_py_join tame_net tame_log tame_read_file tame_write_file tame_os_remove tame_zip_open
  tame_zip_close tame_ftp_new tame_ftp_connect tame_ftp_close tame_ftp_exit
  tame_transport_new tame_transport_close

lemma tame_ftp_body: "tame (ftp_body config fc zp)"
  unfolding ftp_body_def by (intro tame_intros)

lemma tame_sftp_body: "tame (sftp_body config sc zp)"
  unfolding sftp_body_def sftp_session_def sftp_transfer_def sftp_auth_def sftp_put_def
  by (intro tame_intros)

lemma tame_upload_ftp: "tame (upload_ftp config zp)"
  unfolding upload_ftp_def by (intro tame_intros tame_ftp_body)

lemma tame_upload_sftp: "tame (upload_sftp config zp)"
  unfolding upload_sftp_def by (intro tame_intros tame_sftp_body)

lemma tame_dispatch: "tame (dispatch config zp)"
  unfolding dispatch_def
  by (intro tame_intros tame_upload_ftp tame_upload_sftp)

lemma tame_cleanup: "tame (cleanup zp)"
  unfolding cleanup_def by (intro tame_intros)

lemma write_one_exn: "write_one w d root f es = Inl e \<Longrightarrow> is_Exception e"
  by (auto simp: write_one_def zip_write_def zip_arcname_def relpath_def Let_def
        split: sum.splits option.splits node.splits if_splits list.splits)

lemma write_files_exn: "write_files w d root files es = (es', Some e) \<Longrightarrow> is_Exception e"
  by (induction files arbitrary: es) (auto split: sum.splits dest: write_one_exn)

lemma write_walk_exn: "write_walk w d ts es = (es', Some e) \<Longrightarrow> is_Exception e"
  by (induction ts arbitrary: es) (auto split: prod.splits option.splits dest: write_files_exn)

lemma tame_create_zip: "tame (create_zip_from_dir d z)"
proof -
  have "tame (\<lambda>w. case d of
         JStr d' \<Rightarrow>
           (case write_walk w d' (os_walk w d') [] of
              (entries, None) \<Rightarrow> zip_close z entries w
            | (entries, Some e) \<Rightarrow> bind (zip_close z entries) (\<lambda>_. raise e) w)
       | _ \<Rightarrow> bind (zip_close z []) (\<lambda>_. raise TypeError) w)"
    unfolding tame_def
    by (auto simp: zip_close_def bind_def raise_def Let_def
          split: json.splits prod.splits option.splits dest: write_walk_exn)
  then show ?thesis
    unfolding create_zip_from_dir_def by (intro tame_bind tame_zip_open) simp
qed

lemma tame_upload_rest:
  "tame (bind (getitem config ''plugin_name'') (\<lambda>plugin_name.
     bind (lift (py_join temp_dir plugin_name)) (\<lambda>zip_path.
     bind (getitem config ''plugin_dir'') (\<lambda>plugin_dir.
     bind (create_zip_from_dir plugin_dir zip_path) (\<lambda>_.
     bind (dispatch config zip_path) (\<lambda>_.
     cleanup zip_path))))))"
  by (intro tame_intros tame_create_zip tame_dispatch tame_cleanup)

text \<open>
  C2. On a network whose failures are ordinary exceptions (connection refused, login
  rejected, directory missing, transfer broken: the errors of ftplib, paramiko and the
  socket layer), and for every configuration, path and state of the world: when the
  configuration has the transport's section, \<^verbatim>\<open>upload_ftp\<close> and \<^verbatim>\<open>upload_sftp\<close>
  return normally, whatever happens inside their \<^verbatim>\<open>try\<close>, and when the body of the
  \<^verbatim>\<open>try\<close> fails with an exception, the last thing they do is log that exception as
  an error. (The section itself is read before the \<^verbatim>\<open>try\<close>; a configuration
  without it is not a failure of the transfer.)
\<close>

theorem transport_failures_caught:
  assumes net: "net_ok w"
  shows "(py_getitem config ''ftp'' = Inr ftp_config \<longrightarrow>
            fst (upload_ftp config zip_path w) = Inr ()
            \<and> (\<forall>e. fst (ftp_body config ftp_config zip_path w) = Inl e \<longrightarrow>
                  last (trace (snd (upload_ftp config zip_path w))) = Log ERROR (FtpFailed e)))
       \<and> (py_getitem config ''sftp'' = Inr sftp_config \<longrightarrow>
            fst (upload_sftp config zip_path w) = Inr ()
            \<and> (\<forall>e. fst (sftp_body config sftp_config zip_path w) = Inl e \<longrightarrow>
                  last (trace (snd (upload_sftp config zip_path w))) = Log ERROR (SftpFailed e)))"
proof -
  have caught: "fst (try_except m (\<lambda>e. log ERROR (msg e)) w) = Inr ()
        \<and> (\<forall>e. fst (m w) = Inl e \<longrightarrow>
              last (trace (snd (try_except m (\<lambda>e. log ERROR (msg e)) w))) = Log ERROR (msg e))"
    if "tame m" for m :: "unit prog" and msg
  proof (cases "m w")
    case (Pair r w1)
    show ?thesis
    proof (cases r)
      case (Inl e)
      with tameD(4) [OF that Pair] net have "is_Exception e" by simp
      with Pair Inl show ?thesis by (simp add: try_except_def log_def emit_def)
    next
      case (Inr u)
      with Pair show ?thesis by (simp add: try_except_def)
    qed
  qed
  show ?thesis
    using caught [OF tame_ftp_body] caught [OF tame_sftp_body]
    by (simp add: upload_ftp_def upload_sftp_def bind_def getitem_def lift_def)
qed

text \<open>A rejected FTP login, and an SFTP session that cannot be opened.\<close>

theorem transport_failures_caught_witness:
  "net_ok (sample_world (failing FtpLogin))
   \<and> fst (upload_ftp (sample_config ''ftp'') ''/tmp/plugin.zip'' (sample_world (failing FtpLogin))) = Inr ()
   \<and> last (trace (snd (upload_ftp (sample_config ''ftp'') ''/tmp/plugin.zip''
                         (sample_world (failing FtpLogin)))))
       = Log ERROR (FtpFailed (LibError ''refused''))
   \<and> net_ok (sample_world (failing SftpOpen))
   \<and> fst (upload_sftp (sample_config ''sftp'') ''/tmp/plugin.zip'' (sample_world (failing SftpOpen))) = Inr ()
   \<and> last (trace (snd (upload_sftp (sample_config ''sftp'') ''/tmp/plugin.zip''
                         (sample_world (failing SftpOpen)))))
       = Log ERROR (SftpFailed (LibError ''refused''))"
proof -
  let ?fc = "JObj [(''host'', JStr ''ftp.test''), (''port'', JInt 21),
        (''username'', JStr ''u''), (''password'', JStr ''p'')]"
  let ?sc = "JObj [(''host'', JStr ''sftp.test''), (''port'', JInt 22),
        (''username'', JStr ''u''), (''password'', JStr ''p'')]"
  have n: "net_ok (sample_world (failing bad))" for bad
    by (simp add: net_ok_def sample_world_def failing_def)
  have f1: "py_getitem (sample_config ''ftp'') ''ftp'' = Inr ?fc" by code_simp
  have f2: "fst (ftp_body (sample_config ''ftp'') ?fc ''/tmp/plugin.zip''
                  (sample_world (failing FtpLogin))) = Inl (LibError ''refused'')"
    by code_simp
  have s1: "py_getitem (sample_config ''sftp'') ''sftp'' = Inr ?sc" by code_simp
  have s2: "fst (sftp_body (sample_config ''sftp'') ?sc ''/tmp/plugin.zip''
                  (sample_world (failing SftpOpen))) = Inl (LibError ''refused'')"
    by code_simp
  from transport_failures_caught [where w = "sample_world (failing FtpLogin)"
      and config = "sample_config ''ftp''" and ftp_config = ?fc
      and zip_path = "''/tmp/plugin.zip''", OF n] f1 f2
  have a: "fst (upload_ftp (sample_config ''ftp'') ''/tmp/plugin.zip'' (sample_world (failing FtpLogin))) = Inr ()
   \<and> last (trace (snd (upload_ftp (sample_config ''ftp'') ''/tmp/plugin.zip''
                         (sample_world (failing FtpLogin)))))
       = Log ERROR (FtpFailed (LibError ''refused''))" by blast
  from transport_failures_caught [where w = "sample_world (failing SftpOpen)"
      and config = "sample_config ''sftp''" and sftp_config = ?sc
      and zip_path = "''/tmp/plugin.zip''", OF n] s1 s2
  have b: "fst (upload_sftp (sample_config ''sftp'') ''/tmp/plugin.zip'' (sample_world (failing SftpOpen))) = Inr ()
   \<and> last (trace (snd (upload_sftp (sample_config ''sftp'') ''/tmp/plugin.zip''
                         (sample_world (failing SftpOpen)))))
       = Log ERROR (SftpFailed (LibError ''refused''))" by blast
  from a b n show ?thesis by blast
qed

section \<open>Properties of the orchestrator's runs and of the watcher\<close>

lemma upload_plugin_marks:
  "outcome (snd (upload_plugin config w)) = outcome w
   \<and> observer (snd (upload_plugin config w)) = observer w
   \<and> filter is_mark (trace (snd (upload_plugin config w))) = filter is_mark (trace w) @ [Gettempdir]"
proof -
  let ?rest = "\<lambda>temp_dir. bind (getitem config ''plugin_name'') (\<lambda>plugin_name.
     bind (lift (py_join temp_dir plugin_name)) (\<lambda>zip_path.
     bind (getitem config ''plugin_dir'') (\<lambda>plugin_dir.
     bind (create_zip_from_dir plugin_dir zip_path) (\<lambda>_.
     bind (dispatch config zip_path) (\<lambda>_.
     cleanup zip_path)))))"
  let ?w1 = "w\<lparr>trace := trace w @ [Gettempdir]\<rparr>"
  have run: "upload_plugin config w = ?rest (tempdir w) ?w1"
    by (simp add: upload_plugin_def gettempdir_def bind_def)
  obtain r w' where rest: "?rest (tempdir w) ?w1 = (r, w')"
    by (cases "?rest (tempdir w) ?w1")
  from tameD(1-3) [OF tame_upload_rest rest] run rest show ?thesis by simp
qed

lemma filter_Gettempdir_mark:
  "filter (\<lambda>c. c = Gettempdir) xs = filter (\<lambda>c. c = Gettempdir) (filter is_mark xs)"
  by (induction xs) auto

lemma filter_obs_mark: "filter is_obs xs = filter is_obs (filter is_mark xs)"
proof (induction xs)
  case Nil
  show ?case by simp
next
  case (Cons c xs)
  then show ?case by (cases c) simp_all
qed

lemma upload_plugin_runs:
  "length (filter (\<lambda>c. c = Gettempdir) (trace (snd (upload_plugin config w))))
     = Suc (length (filter (\<lambda>c. c = Gettempdir) (trace w)))"
proof -
  have "filter (\<lambda>c. c = Gettempdir) (trace (snd (upload_plugin config w)))
          = filter (\<lambda>c. c = Gettempdir) (filter is_mark (trace w) @ [Gettempdir])"
    using upload_plugin_marks [of config w]
    by (subst filter_Gettempdir_mark) simp
  also have "\<dots> = filter (\<lambda>c. c = Gettempdir) (trace w) @ [Gettempdir]"
    using filter_Gettempdir_mark [of "trace w"] by simp
  finally show ?thesis by simp
qed

text \<open>
  C4. The handler starts the orchestrator exactly once for a modification event that is
  not a directory event and whose path ends in \<^verbatim>\<open>.py\<close> (after logging the change),
  and does nothing at all for any other event. Counted by the orchestrator's first call
  (it asks for the scratch directory once per run): the number of runs grows by one in
  the first case and stays as it was in the second.
\<close>

theorem on_modified_triggers_once:
  "on_modified config ev w =
     (if \<not> is_directory ev \<and> endswith (src_path ev) ''.py''
      then upload_plugin config (snd (log INFO (FileChanged (src_path ev)) w))
      else (Inr (), w))
   \<and> length (filter (\<lambda>c. c = Gettempdir) (trace (snd (on_modified config ev w))))
       = length (filter (\<lambda>c. c = Gettempdir) (trace w))
         + (if \<not> is_directory ev \<and> endswith (src_path ev) ''.py'' then 1 else 0)"
proof (cases "\<not> is_directory ev \<and> endswith (src_path ev) ''.py''")
  case True
  let ?w1 = "snd (log INFO (FileChanged (src_path ev)) w)"
  have run: "on_modified config ev w = upload_plugin config ?w1"
    using True by (simp add: on_modified_def bind_def log_def emit_def)
  have "filter (\<lambda>c. c = Gettempdir) (trace ?w1) = filter (\<lambda>c. c = Gettempdir) (trace w)"
    by (simp add: log_def emit_def)
  with upload_plugin_runs [of config ?w1] run True show ?thesis by simp
next
  case False
  then show ?thesis by (auto simp: on_modified_def ret_def)
qed

text \<open>A change of \<^verbatim>\<open>plugin.py\<close>, a change of \<^verbatim>\<open>readme.txt\<close>, and a directory
  whose name ends in \<^verbatim>\<open>.py\<close>.\<close>

theorem on_modified_triggers_once_witness:
  "length (filter (\<lambda>c. c = Gettempdir)
      (trace (snd (on_modified (sample_config ''ftp'')
                     \<lparr>is_directory = False, src_path = ''/src/plugin.py''\<rparr>
                     (sample_world (\<lambda>op. None)))))) = 1
   \<and> length (filter (\<lambda>c. c = Gettempdir)
      (trace (snd (on_modified (sample_config ''ftp'')
                     \<lparr>is_directory = False, src_path = ''/src/readme.txt''\<rparr>
                     (sample_world (\<lambda>op. None)))))) = 0
   \<and> length (filter (\<lambda>c. c = Gettempdir)
      (trace (snd (on_modified (sample_config ''ftp'')
                     \<lparr>is_directory = True, src_path = ''/src/pkg.py''\<rparr>
                     (sample_world (\<lambda>op. None)))))) = 0"
proof -
  have e1: "endswith ''/src/plugin.py'' ''.py''" by code_simp
  have e2: "\<not> endswith ''/src/readme.txt'' ''.py''" by code_simp
  have t: "trace (sample_world (\<lambda>op. None)) = []" by (simp add: sample_world_def)
  from on_modified_triggers_once [of "sample_config ''ftp''"
         "\<lparr>is_directory = False, src_path = ''/src/plugin.py''\<rparr>" "sample_world (\<lambda>op. None)", THEN conjunct2]
       on_modified_triggers_once [of "sample_config ''ftp''"
         "\<lparr>is_directory = False, src_path = ''/src/readme.txt''\<rparr>" "sample_world (\<lambda>op. None)", THEN conjunct2]
       on_modified_triggers_once [of "sample_config ''ftp''"
         "\<lparr>is_directory = True, src_path = ''/src/pkg.py''\<rparr>" "sample_world (\<lambda>op. None)", THEN conjunct2]
       e1 e2 t
  show ?thesis by simp
qed

text \<open>The poll loop: it is left at the first turn that is not a quiet one.\<close>

lemma poll_loop_set: "polls i = IsSet \<Longrightarrow> poll_loop polls i = Some False"
  by (subst poll_loop.simps) simp

lemma poll_loop_interrupted: "polls i = Interrupted \<Longrightarrow> poll_loop polls i = Some True"
  by (subst poll_loop.simps) simp

lemma poll_loop_unset: "polls i = NotSet \<Longrightarrow> poll_loop polls i = poll_loop polls (Suc i)"
  by (subst poll_loop.simps) simp

lemma poll_loop_after:
  "(\<forall>j. i \<le> j \<and> j < i + n \<longrightarrow> polls j = NotSet) \<Longrightarrow> poll_loop polls i = poll_loop polls (i + n)"
proof (induction n arbitrary: i)
  case 0
  show ?case by simp
next
  case (Suc n)
  have "polls i = NotSet" using Suc.prems by simp
  then have "poll_loop polls i = poll_loop polls (Suc i)" by (rule poll_loop_unset)
  also have "\<dots> = poll_loop polls (Suc i + n)"
    using Suc.prems by (intro Suc.IH) auto
  finally show ?case by simp
qed

lemma watcher_setup_running:
  "watcher_setup config w = (Inr u, w1) \<Longrightarrow>
     observer w1 = Running \<and> Obs ObserverStop \<notin> set (drop (length (trace w)) (trace w1))"
  unfolding watcher_setup_def observer_start_def
  by (auto simp: prog_defs split: sum.splits json.splits option.splits node.splits)

text \<open>
  C1. The claim is that \<^verbatim>\<open>start_watcher\<close> stops the observer and returns once the
  termination signal is set. The code stops the observer only in the handler of
  \<^verbatim>\<open>KeyboardInterrupt\<close>. When the loop is left because the signal is set, after any
  number of quiet turns, the observer was never asked to stop: it is still running, and
  \<^verbatim>\<open>observer.join()\<close> waits for it for ever, so \<^verbatim>\<open>start_watcher\<close> does not return.
\<close>

theorem start_watcher_stop_event_hangs:
  assumes quiet: "\<forall>j<n. polls j = NotSet"
      and signal: "polls n = IsSet"
      and ready: "fst (watcher_setup config w) = Inr ()"
  shows "start_watcher config polls w = None
         \<and> poll_loop polls 0 = Some False
         \<and> observer (snd (watcher_setup config w)) = Running
         \<and> Obs ObserverStop \<notin> set (drop (length (trace w)) (trace (snd (watcher_setup config w))))"
proof -
  obtain w1 where w1: "watcher_setup config w = (Inr (), w1)"
    using ready by (cases "watcher_setup config w") auto
  have "poll_loop polls 0 = poll_loop polls (0 + n)"
    using quiet by (intro poll_loop_after) auto
  with signal have loop: "poll_loop polls 0 = Some False" by (simp add: poll_loop_set)
  from watcher_setup_running [OF w1] w1 loop show ?thesis
    by (simp add: start_watcher_def observer_join_def)
qed

text \<open>The signal is set when the loop makes its fourth turn.\<close>

theorem start_watcher_stop_event_hangs_witness:
  "start_watcher (sample_config ''ftp'') (\<lambda>i. if 3 \<le> i then IsSet else NotSet)
     (sample_world (\<lambda>op. None)) = None
   \<and> poll_loop (\<lambda>i. if 3 \<le> i then IsSet else NotSet) 0 = Some False"
proof -
  have s: "fst (watcher_setup (sample_config ''ftp'') (sample_world (\<lambda>op. None))) = Inr ()"
    by code_simp
  from start_watcher_stop_event_hangs [where n = 3
         and polls = "\<lambda>i. if 3 \<le> i then IsSet else NotSet", OF _ _ s]
  show ?thesis by simp
qed

text \<open>The sibling path: left by a keyboard interrupt, the loop is followed by
  \<^verbatim>\<open>observer.stop()\<close>, and the join returns.\<close>

lemma start_watcher_interrupt_returns:
  assumes quiet: "\<forall>j<n. polls j = NotSet"
      and intr: "polls n = Interrupted"
      and ready: "watcher_setup config w = (Inr (), w1)"
  shows "start_watcher config polls w
           = Some (Inr (), w1\<lparr>observer := Stopping,
                                trace := trace w1 @ [Obs ObserverStop, Obs ObserverJoin]\<rparr>)"
proof -
  have "poll_loop polls 0 = poll_loop polls (0 + n)"
    using quiet by (intro poll_loop_after) auto
  with intr have loop: "poll_loop polls 0 = Some True" by (simp add: poll_loop_interrupted)
  from ready loop show ?thesis
    by (simp add: start_watcher_def observer_join_def observer_stop_def)
qed

section \<open>Properties of the configuration loader\<close>

lemma map_of_upd_same: "map_of (upd es k v) k = Some v"
  by (induction es k v rule: upd.induct) auto

lemma put_lookup: "put n p c = Some n' \<Longrightarrow> lookup n' p = Some (File c)"
proof (induction n p c arbitrary: n' rule: put.induct)
  case (1 n c)
  then show ?case by simp
next
  case (2 c' x xs c)
  then show ?case by simp
next
  case (3 es x c)
  then show ?case
    by (auto simp: map_of_upd_same split: option.splits node.splits)
next
  case (4 es x y ys c)
  then show ?case
    by (auto simp: map_of_upd_same split: option.splits)
qed

lemma load_config_existing:
  assumes "lookup (fs w) (resolve w CONFIG_FILE) = Some (File (Bytes t))"
  shows "load_config w = (json_loads t, w)"
  using assms
  by (simp add: load_config_def os_path_exists_def CONFIG_FILE_def read_file_def bind_def lift_def)





text \<open>The text written for the defaults decodes to the defaults.\<close>

lemma default_round_trip: "json_loads (json_dumps DEFAULT_CONFIG) = Inr DEFAULT_CONFIG"
  by code_simp

text \<open>
  C6. When no configuration file exists and the file can be created, \<^verbatim>\<open>load_config\<close>
  writes the text of \<open>DEFAULT_CONFIG\<close> to it, between two log lines, and returns
  \<open>DEFAULT_CONFIG\<close>. The file then holds exactly that text; decoding the text gives the
  value returned, and so does loading the configuration again. The defaults enable the
  automatic upload and select FTP.
\<close>

theorem load_config_creates_default:
  assumes absent: "\<not> os_path_exists w CONFIG_FILE"
      and writable: "put (fs w) (resolve w CONFIG_FILE) (Bytes (json_dumps DEFAULT_CONFIG)) = Some t"
  shows "load_config w =
           (Inr DEFAULT_CONFIG,
            w\<lparr>fs := t, trace := trace w @ [Log INFO ConfigMissing, WriteFile CONFIG_FILE,
                                            Log INFO ConfigCreated]\<rparr>)
         \<and> lookup t (resolve w CONFIG_FILE) = Some (File (Bytes (json_dumps DEFAULT_CONFIG)))
         \<and> json_loads (json_dumps DEFAULT_CONFIG) = Inr DEFAULT_CONFIG
         \<and> fst (load_config (snd (load_config w))) = Inr DEFAULT_CONFIG
         \<and> py_getitem DEFAULT_CONFIG ''auto_upload'' = Inr (JBool True)
         \<and> py_getitem DEFAULT_CONFIG ''upload_method'' = Inr (JStr ''ftp'')"
proof -
  let ?w' = "w\<lparr>fs := t, trace := trace w @ [Log INFO ConfigMissing, WriteFile CONFIG_FILE,
                                            Log INFO ConfigCreated]\<rparr>"
  have run: "load_config w = (Inr DEFAULT_CONFIG, ?w')"
    using absent writable
    by (simp add: load_config_def bind_def log_def emit_def write_file_def ret_def resolve_def)
  have stored: "lookup t (resolve w CONFIG_FILE) = Some (File (Bytes (json_dumps DEFAULT_CONFIG)))"
    using put_lookup [OF writable] .
  then have "lookup (fs ?w') (resolve ?w' CONFIG_FILE) = Some (File (Bytes (json_dumps DEFAULT_CONFIG)))"
    by (simp add: resolve_def)
  from load_config_existing [OF this] default_round_trip
  have again: "fst (load_config ?w') = Inr DEFAULT_CONFIG" by simp
  have fields: "py_getitem DEFAULT_CONFIG ''auto_upload'' = Inr (JBool True)"
    "py_getitem DEFAULT_CONFIG ''upload_method'' = Inr (JStr ''ftp'')"
    by (simp_all add: DEFAULT_CONFIG_def)
  from run stored again fields default_round_trip show ?thesis by simp
qed

text \<open>The sample world has no configuration file in its working directory.\<close>

theorem load_config_creates_default_witness:
  "fst (load_config (sample_world (\<lambda>op. None))) = Inr DEFAULT_CONFIG
   \<and> lookup (fs (snd (load_config (sample_world (\<lambda>op. None))))) [''work'', ''config.json'']
       = Some (File (Bytes (json_dumps DEFAULT_CONFIG)))
   \<and> json_loads (json_dumps DEFAULT_CONFIG) = Inr DEFAULT_CONFIG"
proof -
  let ?w = "sample_world (\<lambda>op. None)"
  let ?t = "Dir [
     (''src'', Dir [
        (''plugin.py'', File (Bytes ''print(1)'')),
        (''lib'', Dir [
           (''util.py'', File (Bytes ''x = 1'')),
           (''notes.txt'', File (Bytes ''todo''))])]),
     (''tmp'', Dir [(''plugin.zip'', File (Bytes ''old''))]),
     (''work'', Dir [(''config.json'', File (Bytes (json_dumps DEFAULT_CONFIG)))])]"
  have r: "resolve ?w CONFIG_FILE = [''work'', ''config.json'']" by code_simp
  have h1: "\<not> os_path_exists ?w CONFIG_FILE" by code_simp
  have h2: "put (fs ?w) (resolve ?w CONFIG_FILE) (Bytes (json_dumps DEFAULT_CONFIG)) = Some ?t"
    unfolding r by (simp add: sample_world_def sample_fs_def)
  from load_config_creates_default [OF h1 h2] r show ?thesis by simp
qed

section \<open>Properties of the command interface\<close>

lemma upload_plugin_obs:
  "observer (snd (upload_plugin config w)) = observer w
   \<and> filter is_obs (trace (snd (upload_plugin config w))) = filter is_obs (trace w)"
proof -
  have "filter is_obs (trace (snd (upload_plugin config w)))
          = filter is_obs (filter is_mark (trace (snd (upload_plugin config w))))"
    by (rule filter_obs_mark)
  also have "\<dots> = filter is_obs (filter is_mark (trace w))"
    using upload_plugin_marks [of config w] by simp
  also have "\<dots> = filter is_obs (trace w)"
    by (rule filter_obs_mark [symmetric])
  finally show ?thesis using upload_plugin_marks [of config w] by simp
qed

lemma manual_upload_obs:
  "observer (snd (manual_upload config console w)) = observer w
   \<and> filter is_obs (trace (snd (manual_upload config console w))) = filter is_obs (trace w)"
proof (induction console arbitrary: w)
  case Nil
  show ?case by simp
next
  case (Cons command rest)
  show ?case
  proof (cases "lower command = ''upload''")
    case True
    obtain r w' where up: "upload_plugin config w = (r, w')" by (cases "upload_plugin config w")
    from upload_plugin_obs [of config w] up
    have keep: "observer w' = observer w" "filter is_obs (trace w') = filter is_obs (trace w)"
      by simp_all
    show ?thesis
    proof (cases r)
      case (Inl e)
      with True up keep show ?thesis by simp
    next
      case (Inr u)
      with True up keep Cons.IH [of w'] show ?thesis by simp
    qed
  next
    case False
    with Cons.IH [of "w\<lparr>trace := trace w @ [PrintInvalid]\<rparr>"] show ?thesis by simp
  qed
qed

text \<open>
  C9. When the stored configuration is valid and its \<^verbatim>\<open>auto_upload\<close> value is false (in
  Python's sense: \<^verbatim>\<open>false\<close>, \<^verbatim>\<open>null\<close>, zero, or empty), the main program is the manual
  command loop, entered after two log lines, and it returns when the loop does. In the
  whole run no call is made on an observer: the trace of the final world has the
  observer calls it had at the start and no other, and the observer's state is as it
  was, so no subscription was ever created or started.
\<close>

theorem manual_mode_never_watches:
  assumes stored: "lookup (fs w) (resolve w CONFIG_FILE) = Some (File (Bytes t))"
      and valid: "json_loads t = Inr config"
      and flag: "py_getitem config ''auto_upload'' = Inr flag"
      and off: "\<not> truthy flag"
  shows "main console delay w =
           Some (manual_upload config console
                   (w\<lparr>trace := trace w @ [Log INFO Started, Log INFO ManualMode]\<rparr>))
         \<and> observer (snd (manual_upload config console
                   (w\<lparr>trace := trace w @ [Log INFO Started, Log INFO ManualMode]\<rparr>)))
             = observer w
         \<and> filter is_obs (trace (snd (manual_upload config console
                   (w\<lparr>trace := trace w @ [Log INFO Started, Log INFO ManualMode]\<rparr>))))
             = filter is_obs (trace w)"
proof -
  let ?w1 = "w\<lparr>trace := trace w @ [Log INFO Started]\<rparr>"
  let ?w2 = "w\<lparr>trace := trace w @ [Log INFO Started, Log INFO ManualMode]\<rparr>"
  have "lookup (fs ?w1) (resolve ?w1 CONFIG_FILE) = Some (File (Bytes t))"
    using stored by (simp add: resolve_def)
  from load_config_existing [OF this] valid
  have "load_config ?w1 = (Inr config, ?w1)" by simp
  with flag off have run: "main console delay w = Some (manual_upload config console ?w2)"
    by (simp add: main_def bind_def log_def emit_def)
  from manual_upload_obs [of config console ?w2] run show ?thesis by simp
qed

text \<open>A session at the console: an unknown command, an upload, the exit.\<close>

theorem manual_mode_never_watches_witness:
  "main [''hello'', ''UPLOAD'', ''exit''] 0 (world_with_config (json_dumps (sample_config ''ftp'')))
     = Some (manual_upload (sample_config ''ftp'') [''hello'', ''UPLOAD'', ''exit'']
               ((world_with_config (json_dumps (sample_config ''ftp'')))
                  \<lparr>trace := trace (world_with_config (json_dumps (sample_config ''ftp'')))
                             @ [Log INFO Started, Log INFO ManualMode]\<rparr>))
   \<and> observer (snd (manual_upload (sample_config ''ftp'') [''hello'', ''UPLOAD'', ''exit'']
               ((world_with_config (json_dumps (sample_config ''ftp'')))
                  \<lparr>trace := trace (world_with_config (json_dumps (sample_config ''ftp'')))
                             @ [Log INFO Started, Log INFO ManualMode]\<rparr>))) = NoObserver
   \<and> filter is_obs (trace (snd (manual_upload (sample_config ''ftp'') [''hello'', ''UPLOAD'', ''exit'']
               ((world_with_config (json_dumps (sample_config ''ftp'')))
                  \<lparr>trace := trace (world_with_config (json_dumps (sample_config ''ftp'')))
                             @ [Log INFO Started, Log INFO ManualMode]\<rparr>)))) = []
   \<and> fst (manual_upload (sample_config ''ftp'') [''hello'', ''UPLOAD'', ''exit'']
               ((world_with_config (json_dumps (sample_config ''ftp'')))
                  \<lparr>trace := trace (world_with_config (json_dumps (sample_config ''ftp'')))
                             @ [Log INFO Started, Log INFO ManualMode]\<rparr>)) = Inr ()"
proof -
  let ?t = "json_dumps (sample_config ''ftp'')"
  have h1: "lookup (fs (world_with_config ?t)) (resolve (world_with_config ?t) CONFIG_FILE)
              = Some (File (Bytes ?t))"
    by code_simp
  have h2: "json_loads ?t = Inr (sample_config ''ftp'')" by code_simp
  have h3: "py_getitem (sample_config ''ftp'') ''auto_upload'' = Inr (JBool False)" by code_simp
  have h4: "\<not> truthy (JBool False)" by simp
  have h5: "fst (manual_upload (sample_config ''ftp'') [''hello'', ''UPLOAD'', ''exit'']
               ((world_with_config (json_dumps (sample_config ''ftp'')))
                  \<lparr>trace := trace (world_with_config (json_dumps (sample_config ''ftp'')))
                             @ [Log INFO Started, Log INFO ManualMode]\<rparr>)) = Inr ()"
    by code_simp
  have s: "observer (world_with_config ?t) = NoObserver" "trace (world_with_config ?t) = []"
    by (simp_all add: world_with_config_def)
  from manual_mode_never_watches [OF h1 h2 h3 h4,
         of "[''hello'', ''UPLOAD'', ''exit'']" 0] h5 s
  show ?thesis by simp
qed

section \<open>Properties of the orchestrator\<close>








section \<open>Properties of the archiver\<close>














































lemma length_direct_entries:
  "length (direct_entries rel es) = length (filter (\<lambda>e. \<not> is_dir (snd e)) es)"
  by (induction es) (auto split: node.splits)








end
